theory Spec2Isabelle
  imports Complex_Main "HOL-Library.Word"
begin

section \<open>JavaScript values of the request body\<close>

text \<open>
  The handler of \<^verbatim>\<open>functions/watermark.js\<close> reads its input from \<^verbatim>\<open>req.body\<close>,
  which the JSON body parser builds. A field of the body is therefore any JSON value, or
  \<^verbatim>\<open>undefined\<close> when the key is absent. Strings are lists of characters, and an object
  is the list of its own properties, looked up with \<open>map_of\<close>.

  A number is an IEEE 754 double: a finite one, written as the real number it stands for
  (a literal such as \<^verbatim>\<open>0.2\<close> as the real it spells), one of the two infinities, which a
  literal too large for a double parses to and which arithmetic overflows to, or
  \<^verbatim>\<open>NaN\<close>. The two zeros are one value: the handler never divides by a zero, and no
  other operation it performs tells them apart.
\<close>

datatype jsnum = Fin real | PInf | NInf | NaN

datatype jsval =
    JUndefined
  | JNull
  | JBool bool
  | JNum jsnum
  | JStr string
  | JArr "jsval list"
  | JObj "(string \<times> jsval) list"

text \<open>Truthiness, as \<^verbatim>\<open>!v\<close> and \<^verbatim>\<open>v || d\<close> test it.\<close>

fun truthy :: "jsval \<Rightarrow> bool" where
  "truthy JUndefined = False"
| "truthy JNull = False"
| "truthy (JBool b) = b"
| "truthy (JNum n) = (case n of Fin r \<Rightarrow> r \<noteq> 0 | NaN \<Rightarrow> False | _ \<Rightarrow> True)"
| "truthy (JStr s) = (s \<noteq> [])"
| "truthy (JArr xs) = True"
| "truthy (JObj kvs) = True"

text \<open>\<^verbatim>\<open>a || b\<close>\<close>

definition js_or :: "jsval \<Rightarrow> jsval \<Rightarrow> jsval" where
  "js_or a b = (if truthy a then a else b)"

text \<open>Decimal digits of an index, for the property keys of arrays and strings.\<close>

fun index_key :: "nat \<Rightarrow> string" where
  "index_key n =
     (if n < 10 then [char_of (48 + n)]
      else index_key (n div 10) @ [char_of (48 + n mod 10)])"

text \<open>The own enumerable properties that an object spread \<^verbatim>\<open>{ ...v }\<close> copies:
  the properties of an object, the indexed elements of an array or of a string, and nothing
  for \<^verbatim>\<open>undefined\<close>, \<^verbatim>\<open>null\<close>, a boolean or a number.\<close>

fun own_props :: "jsval \<Rightarrow> (string \<times> jsval) list" where
  "own_props (JObj kvs) = kvs"
| "own_props (JArr xs) = zip (map index_key [0..<length xs]) xs"
| "own_props (JStr s) = zip (map index_key [0..<length s]) (map (\<lambda>c. JStr [c]) s)"
| "own_props _ = []"

text \<open>An object under construction is a map from keys to values;
  \<^verbatim>\<open>{ ...a, ...b }\<close> lets the properties of \<open>b\<close> win.\<close>

type_synonym jsobject = "string \<rightharpoonup> jsval"

definition spread :: "jsobject \<Rightarrow> jsval \<Rightarrow> jsobject" where
  "spread target v = target ++ map_of (own_props v)"

text \<open>Reading a property; a missing one is \<^verbatim>\<open>undefined\<close>.\<close>

definition get_prop :: "jsobject \<Rightarrow> string \<Rightarrow> jsval" where
  "get_prop obj k = (case obj k of Some v \<Rightarrow> v | None \<Rightarrow> JUndefined)"

section \<open>The collaborators\<close>

type_synonym bytes = "8 word list"

text \<open>A thrown exception is the \<^verbatim>\<open>message\<close> of its error object.\<close>

type_synonym 'a throws = "string + 'a"

datatype font = PDFFont bytes
datatype color = RGB real real real
datatype rotation = Degrees jsval

text \<open>The options object handed to \<^verbatim>\<open>page.drawText\<close>.\<close>

record drawTextOptions =
  dt_x :: jsnum
  dt_y :: jsnum
  dt_size :: jsval
  dt_opacity :: jsval
  dt_rotate :: rotation
  dt_font :: font
  dt_color :: color

text \<open>A page exposes its size and collects the text drawn on it, in the order of the
  calls.\<close>

record page =
  page_width :: real
  page_height :: real
  page_drawn :: "(jsval \<times> drawTextOptions) list"

record pdfDoc =
  doc_pages :: "page list"
  doc_fontkit :: bool
  doc_fonts :: "font list"

text \<open>
  The file system, \<^verbatim>\<open>Buffer\<close>, pdf-lib and the language's own conversions are not part
  of the repository. Each is a parameter: a call either throws a message or returns, and the
  environment decides which. \<open>drawText_throws\<close> and \<open>degrees_throws\<close> only decide whether
  the library rejects its arguments; the effect of an accepted call is written out below.
  \<open>roundDouble\<close> is the rounding of the language's arithmetic: the double nearest to the
  exact result of an operation, or an infinity when the result is too large. Nothing is
  assumed of it, so that no operation is taken to be exact.
\<close>

record env =
  readFile :: "string \<Rightarrow> bytes throws"
  bufferFrom :: "jsval \<Rightarrow> bytes throws"
  toBase64 :: "bytes \<Rightarrow> string"
  PDFDocument_load :: "bytes \<Rightarrow> pdfDoc throws"
  embedFont :: "pdfDoc \<Rightarrow> bytes option \<Rightarrow> font throws"
  degrees_throws :: "jsval \<Rightarrow> string option"
  widthOfTextAtSize :: "font \<Rightarrow> jsval \<Rightarrow> jsval \<Rightarrow> jsnum throws"
  drawText_throws :: "page \<Rightarrow> jsval \<Rightarrow> drawTextOptions \<Rightarrow> string option"
  save :: "pdfDoc \<Rightarrow> bytes throws"
  roundDouble :: "real \<Rightarrow> jsnum"
  numberToString :: "jsnum \<Rightarrow> string"
  objectToString :: "jsval \<Rightarrow> string throws"
  coerceToNumber :: "jsval \<Rightarrow> jsnum throws"

text \<open>The arithmetic of doubles. The operands of \<^verbatim>\<open>+\<close>, \<^verbatim>\<open>-\<close> and \<^verbatim>\<open>/\<close> are
  combined exactly and the result is rounded once; \<^verbatim>\<open>NaN\<close> is absorbing, an infinity
  absorbs every finite number, and the two infinities cancel to \<^verbatim>\<open>NaN\<close>.\<close>

fun js_neg :: "jsnum \<Rightarrow> jsnum" where
  "js_neg (Fin a) = Fin (- a)"
| "js_neg PInf = NInf"
| "js_neg NInf = PInf"
| "js_neg NaN = NaN"

fun js_add :: "env \<Rightarrow> jsnum \<Rightarrow> jsnum \<Rightarrow> jsnum" where
  "js_add e (Fin a) (Fin b) = roundDouble e (a + b)"
| "js_add e NaN b = NaN"
| "js_add e a NaN = NaN"
| "js_add e PInf NInf = NaN"
| "js_add e NInf PInf = NaN"
| "js_add e PInf b = PInf"
| "js_add e a PInf = PInf"
| "js_add e NInf b = NInf"
| "js_add e a NInf = NInf"

definition js_sub :: "env \<Rightarrow> jsnum \<Rightarrow> jsnum \<Rightarrow> jsnum" where
  "js_sub e a b = js_add e a (js_neg b)"

text \<open>A finite number divided by zero is an infinity of its sign, and zero by zero is
  \<^verbatim>\<open>NaN\<close>; a finite number divided by an infinity is zero.\<close>

fun js_div :: "env \<Rightarrow> jsnum \<Rightarrow> jsnum \<Rightarrow> jsnum" where
  "js_div e (Fin a) (Fin b) =
     (if b = 0 then (if a = 0 then NaN else if 0 < a then PInf else NInf)
      else roundDouble e (a / b))"
| "js_div e NaN b = NaN"
| "js_div e a NaN = NaN"
| "js_div e (Fin a) b = Fin 0"
| "js_div e PInf (Fin b) = (if b < 0 then NInf else PInf)"
| "js_div e NInf (Fin b) = (if b < 0 then PInf else NInf)"
| "js_div e a b = NaN"

text \<open>\<^verbatim>\<open>degrees(v)\<close> and \<^verbatim>\<open>rgb(r, g, b)\<close> of pdf-lib.\<close>

definition degrees :: "env \<Rightarrow> jsval \<Rightarrow> rotation throws" where
  "degrees e v = (case degrees_throws e v of Some m \<Rightarrow> Inl m | None \<Rightarrow> Inr (Degrees v))"

definition rgb :: "real \<Rightarrow> real \<Rightarrow> real \<Rightarrow> color" where
  "rgb r g b = RGB r g b"

text \<open>\<^verbatim>\<open>page.drawText(text, options)\<close>: the page records the call unless the library
  throws.\<close>

definition drawText :: "env \<Rightarrow> page \<Rightarrow> jsval \<Rightarrow> drawTextOptions \<Rightarrow> page throws" where
  "drawText e p text opts =
     (case drawText_throws e p text opts of
        Some m \<Rightarrow> Inl m
      | None \<Rightarrow> Inr (p\<lparr>page_drawn := page_drawn p @ [(text, opts)]\<rparr>))"

text \<open>The conversion of a value inside a template literal. The text of a number, and the
  conversion of an array or an object (which throws when the object has no usable
  \<^verbatim>\<open>toString\<close>), are left to the environment.\<close>

fun ToString :: "env \<Rightarrow> jsval \<Rightarrow> string throws" where
  "ToString e (JStr s) = Inr s"
| "ToString e JUndefined = Inr ''undefined''"
| "ToString e JNull = Inr ''null''"
| "ToString e (JBool b) = Inr (if b then ''true'' else ''false'')"
| "ToString e (JNum n) = Inr (numberToString e n)"
| "ToString e v = objectToString e v"

text \<open>The conversion of an operand of \<^verbatim>\<open>/\<close>. Parsing a string, and converting an array
  or an object first (which may throw), are left to the environment.\<close>

fun ToNumber :: "env \<Rightarrow> jsval \<Rightarrow> jsnum throws" where
  "ToNumber e (JNum n) = Inr n"
| "ToNumber e JUndefined = Inr NaN"
| "ToNumber e JNull = Inr (Fin 0)"
| "ToNumber e (JBool b) = Inr (Fin (if b then 1 else 0))"
| "ToNumber e v = coerceToNumber e v"

section \<open>The font loader\<close>

text \<open>The module's two variables \<^verbatim>\<open>sarabunFontBytes\<close> and \<^verbatim>\<open>sarabunFontLoaded\<close>.\<close>

record font_state =
  sarabunFontBytes :: "bytes option"
  sarabunFontLoaded :: bool

definition fontPath :: string where
  "fontPath = ''sarabun.ttf''"

definition initial_state :: font_state where
  "initial_state = \<lparr>sarabunFontBytes = None, sarabunFontLoaded = False\<rparr>"

text \<open>\<^verbatim>\<open>loadSarabunFont\<close>: the assignment and the flag happen only after a successful
  read; a failed read rethrows with a new message and leaves both variables alone.\<close>

definition loadSarabunFont :: "env \<Rightarrow> font_state \<Rightarrow> unit throws \<times> font_state" where
  "loadSarabunFont e st =
     (case readFile e fontPath of
        Inr b \<Rightarrow> (Inr (), st\<lparr>sarabunFontBytes := Some b, sarabunFontLoaded := True\<rparr>)
      | Inl m \<Rightarrow> (Inl (''Failed to load Sarabun font: '' @ m), st))"

text \<open>The load started when the module is initialised; its outcome is not awaited.\<close>

definition module_init :: "env \<Rightarrow> font_state" where
  "module_init e =
     (if \<not> sarabunFontLoaded initial_state then snd (loadSarabunFont e initial_state)
      else initial_state)"

section \<open>The request handler\<close>

record request =
  pdfBase64 :: jsval
  firstName :: jsval
  lastName :: jsval
  watermarkLine1 :: jsval
  watermarkOptions :: jsval

datatype body =
    ErrorBody string
  | ErrorDetailsBody string string
  | SuccessBody string

record response =
  status :: nat
  body :: body

definition defaultWatermarkOptions :: jsval where
  "defaultWatermarkOptions =
     JObj [(''size'', JNum (Fin 65)), (''opacity'', JNum (Fin 0.2)),
           (''rotate'', JNum (Fin (-45))), (''sizesubtitle'', JNum (Fin 40))]"

text \<open>\<^verbatim>\<open>{ ...defaultWatermarkOptions, ...watermarkOptions }\<close>\<close>

definition finalWatermarkOptions :: "request \<Rightarrow> jsobject" where
  "finalWatermarkOptions req =
     spread (spread Map.empty defaultWatermarkOptions) (watermarkOptions req)"

definition finalWatermarkLine1 :: "request \<Rightarrow> jsval" where
  "finalWatermarkLine1 req = js_or (watermarkLine1 req) (JStr ''CONFIDENTIAL'')"

definition finalWatermarkLine2 :: "env \<Rightarrow> request \<Rightarrow> string throws" where
  "finalWatermarkLine2 e req =
     (case ToString e (js_or (firstName req) (JStr '''')) of
        Inl m \<Rightarrow> Inl m
      | Inr a \<Rightarrow>
          (case ToString e (js_or (lastName req) (JStr '''')) of
             Inl m \<Rightarrow> Inl m
           | Inr b \<Rightarrow> Inr (a @ '' '' @ b)))"

text \<open>The callback of \<^verbatim>\<open>pdfDoc.getPages().forEach\<close>: the placement of the two lines on
  one page. The statements are in the order of the source, so that the first call that
  throws ends the callback.\<close>

definition placeWatermark ::
  "env \<Rightarrow> font \<Rightarrow> font \<Rightarrow> jsval \<Rightarrow> jsval \<Rightarrow> jsobject \<Rightarrow> page \<Rightarrow> page throws" where
  "placeWatermark e mainFont subtitleFont line1 line2 opts p =
     (let width = Fin (page_width p);
          height = Fin (page_height p);
          rotateDegrees = get_prop opts ''rotate''
      in case degrees e rotateDegrees of
           Inl m \<Rightarrow> Inl m
         | Inr rotationObject \<Rightarrow>
      (case widthOfTextAtSize e mainFont line1 (get_prop opts ''size'') of
           Inl m \<Rightarrow> Inl m
         | Inr line1Width \<Rightarrow>
      (let line1Height = get_prop opts ''size'';
           pageCenterX = js_div e width (Fin 2);
           pageCenterY = js_div e height (Fin 2);
           line1DrawX_unrotated = js_sub e pageCenterX (js_div e line1Width (Fin 2))
       in case ToNumber e line1Height of
            Inl m \<Rightarrow> Inl m
          | Inr line1HeightNumber \<Rightarrow>
      (let line1DrawY_unrotated = js_sub e pageCenterY (js_div e line1HeightNumber (Fin 2))
       in case drawText e p line1
                 \<lparr>dt_x = line1DrawX_unrotated,
                  dt_y = line1DrawY_unrotated,
                  dt_size = get_prop opts ''size'',
                  dt_opacity = get_prop opts ''opacity'',
                  dt_rotate = rotationObject,
                  dt_font = mainFont,
                  dt_color = rgb 0.5 0.5 0.5\<rparr> of
            Inl m \<Rightarrow> Inl m
          | Inr p1 \<Rightarrow>
      (let xOffsetRotated = Fin (- 20);
           yOffsetRotated = Fin (- 30);
           line2DrawX = js_add e line1DrawX_unrotated xOffsetRotated;
           line2DrawY = js_add e line1DrawY_unrotated yOffsetRotated
       in drawText e p1 line2
            \<lparr>dt_x = line2DrawX,
             dt_y = line2DrawY,
             dt_size = get_prop opts ''sizesubtitle'',
             dt_opacity = get_prop opts ''opacity'',
             dt_rotate = rotationObject,
             dt_font = subtitleFont,
             dt_color = rgb 0.5 0.5 0.5\<rparr>)))))"

text \<open>\<^verbatim>\<open>forEach\<close> over the pages, each changed in place by the callback; the first
  exception leaves the loop.\<close>

fun forEach :: "('a \<Rightarrow> 'a throws) \<Rightarrow> 'a list \<Rightarrow> 'a list throws" where
  "forEach f [] = Inr []"
| "forEach f (p # ps) =
     (case f p of
        Inl m \<Rightarrow> Inl m
      | Inr p' \<Rightarrow> (case forEach f ps of Inl m \<Rightarrow> Inl m | Inr ps' \<Rightarrow> Inr (p' # ps')))"

text \<open>The \<^verbatim>\<open>try\<close> block of the handler up to the serialisation: the document with
  every page watermarked, or the message of the exception that left the block.\<close>

definition watermarkedDoc :: "env \<Rightarrow> bytes option \<Rightarrow> request \<Rightarrow> pdfDoc throws" where
  "watermarkedDoc e fontBytes req =
     (case bufferFrom e (pdfBase64 req) of
        Inl m \<Rightarrow> Inl m
      | Inr existingPdfBytes \<Rightarrow>
     (case PDFDocument_load e existingPdfBytes of
        Inl m \<Rightarrow> Inl m
      | Inr loaded \<Rightarrow>
     (let pdfDoc = loaded\<lparr>doc_fontkit := True\<rparr>
      in case embedFont e pdfDoc fontBytes of
           Inl m \<Rightarrow> Inl m
         | Inr customFont \<Rightarrow>
     (let pdfDoc = pdfDoc\<lparr>doc_fonts := doc_fonts pdfDoc @ [customFont]\<rparr>;
          opts = finalWatermarkOptions req;
          line1 = finalWatermarkLine1 req
      in case finalWatermarkLine2 e req of
           Inl m \<Rightarrow> Inl m
         | Inr line2 \<Rightarrow>
     (let mainFont = customFont;
          subtitleFont = customFont
      in case forEach (placeWatermark e mainFont subtitleFont line1 (JStr line2) opts)
                (doc_pages pdfDoc) of
           Inl m \<Rightarrow> Inl m
         | Inr pages \<Rightarrow> Inr (pdfDoc\<lparr>doc_pages := pages\<rparr>))))))"

text \<open>The whole \<^verbatim>\<open>try\<close> block: the base64 text of the saved document, or the message
  of the exception.\<close>

definition tryBlock :: "env \<Rightarrow> bytes option \<Rightarrow> request \<Rightarrow> string throws" where
  "tryBlock e fontBytes req =
     (case watermarkedDoc e fontBytes req of
        Inl m \<Rightarrow> Inl m
      | Inr pdfDoc \<Rightarrow>
          (case save e pdfDoc of
             Inl m \<Rightarrow> Inl m
           | Inr modifiedPdfBytes \<Rightarrow> Inr (toBase64 e modifiedPdfBytes)))"

text \<open>The guard at the head of the handler: the font is loaded when the flag is not yet
  set, and the exception of a failed load is handed to the handler.\<close>

definition fontGuard :: "env \<Rightarrow> font_state \<Rightarrow> unit throws \<times> font_state" where
  "fontGuard e st = (if \<not> sarabunFontLoaded st then loadSarabunFont e st else (Inr (), st))"

text \<open>The handler of \<^verbatim>\<open>POST /addWatermark\<close>: the response and the module's variables
  after the request. A response sent without \<^verbatim>\<open>res.status\<close> has status 200. Requests are
  taken one at a time: the interleaving of two handlers at an \<^verbatim>\<open>await\<close> is not
  modelled.\<close>

definition addWatermark :: "env \<Rightarrow> font_state \<Rightarrow> request \<Rightarrow> response \<times> font_state" where
  "addWatermark e st req =
     (case fontGuard e st of
        (Inl m, st1) \<Rightarrow> (\<lparr>status = 500, body = ErrorBody m\<rparr>, st1)
      | (Inr _, st1) \<Rightarrow>
          if \<not> truthy (pdfBase64 req)
          then (\<lparr>status = 400, body = ErrorBody ''PDF data (pdfBase64) is required.''\<rparr>, st1)
          else (case tryBlock e (sarabunFontBytes st1) req of
                  Inr watermarkedPdfBase64 \<Rightarrow>
                    (\<lparr>status = 200, body = SuccessBody watermarkedPdfBase64\<rparr>, st1)
                | Inl m \<Rightarrow>
                    (\<lparr>status = 500,
                      body = ErrorDetailsBody ''Failed to generate watermarked PDF'' m\<rparr>, st1)))"

text \<open>The response of the \<^verbatim>\<open>catch\<close> block, with the message of the exception as
  \<^verbatim>\<open>details\<close>.\<close>

definition documentProcessingFailure :: "string \<Rightarrow> response" where
  "documentProcessingFailure m =
     \<lparr>status = 500, body = ErrorDetailsBody ''Failed to generate watermarked PDF'' m\<rparr>"

section \<open>A concrete environment\<close>

text \<open>A small environment on which the definitions can be evaluated: the font file
  exists, the text \<^verbatim>\<open>JVBERg==\<close> decodes to the four bytes of \<^verbatim>\<open>%PDF\<close>, which load as a
  document of two pages (US Letter and A4), and the library checks the types of its
  arguments and the range of the opacity, as pdf-lib does. Its rounding returns the exact
  result: the numbers of the examples below are integers and halves of integers, doubles
  on which the arithmetic of the language is exact as well.\<close>

definition sample_font_bytes :: bytes where
  "sample_font_bytes = [0, 1, 0, 0]"

definition sample_pdf_bytes :: bytes where
  "sample_pdf_bytes = [37, 80, 68, 70]"

definition letter_page :: page where
  "letter_page = \<lparr>page_width = 612, page_height = 792, page_drawn = []\<rparr>"

definition a4_page :: page where
  "a4_page = \<lparr>page_width = 595, page_height = 842, page_drawn = []\<rparr>"

definition sample_doc :: pdfDoc where
  "sample_doc = \<lparr>doc_pages = [letter_page, a4_page], doc_fontkit = False, doc_fonts = []\<rparr>"

definition sample_env :: env where
  "sample_env =
     \<lparr>readFile = (\<lambda>path. if path = ''sarabun.ttf'' then Inr sample_font_bytes
                         else Inl ''ENOENT: no such file or directory''),
      bufferFrom = (\<lambda>v. case v of
                          JStr s \<Rightarrow> Inr (if s = ''JVBERg=='' then sample_pdf_bytes else [])
                        | _ \<Rightarrow> Inl ''The first argument must be of type string''),
      toBase64 = (\<lambda>b. if b = sample_pdf_bytes then ''JVBERg=='' else []),
      PDFDocument_load = (\<lambda>b. if b = sample_pdf_bytes then Inr sample_doc
                               else Inl ''No PDF header found''),
      embedFont = (\<lambda>d b. case b of
                           Some f \<Rightarrow> Inr (PDFFont f)
                         | None \<Rightarrow> Inl ''font must be of type Uint8Array''),
      degrees_throws = (\<lambda>v. case v of
                              JNum n \<Rightarrow> None
                            | _ \<Rightarrow> Some ''degreeAngle must be of type number''),
      widthOfTextAtSize = (\<lambda>f t s. case t of
                              JStr str \<Rightarrow>
                                (case s of
                                   JNum (Fin z) \<Rightarrow> Inr (Fin (real (length str) * z / 2))
                                 | JNum n \<Rightarrow> Inr n
                                 | _ \<Rightarrow> Inl ''size must be of type number'')
                            | _ \<Rightarrow> Inl ''text must be of type string''),
      drawText_throws = (\<lambda>p t opts. case t of
                              JStr str \<Rightarrow>
                                (case dt_opacity opts of
                                   JNum (Fin r) \<Rightarrow>
                                     if 0 \<le> r \<and> r \<le> 1 then None
                                     else Some ''opacity must be at least 0 and at most 1''
                                 | JNum NaN \<Rightarrow> None
                                 | JNum n \<Rightarrow> Some ''opacity must be at least 0 and at most 1''
                                 | _ \<Rightarrow> Some ''opacity must be of type number'')
                            | _ \<Rightarrow> Some ''text must be of type string''),
      save = (\<lambda>d. Inr sample_pdf_bytes),
      roundDouble = (\<lambda>r. Fin r),
      numberToString = (\<lambda>n. ''0''),
      objectToString = (\<lambda>v. Inr ''[object Object]''),
      coerceToNumber = (\<lambda>v. Inr NaN)\<rparr>"

definition sample_request :: request where
  "sample_request =
     \<lparr>pdfBase64 = JStr ''JVBERg=='', firstName = JStr ''Jane'', lastName = JStr ''Doe'',
      watermarkLine1 = JUndefined, watermarkOptions = JUndefined\<rparr>"

text \<open>The same environment with the font file missing.\<close>

definition no_font_env :: env where
  "no_font_env = sample_env\<lparr>readFile := (\<lambda>path. Inl ''ENOENT: no such file or directory'')\<rparr>"

text \<open>The module's variables once the sample font is loaded.\<close>

definition loaded_state :: font_state where
  "loaded_state = \<lparr>sarabunFontBytes = Some sample_font_bytes, sarabunFontLoaded = True\<rparr>"

text \<open>Two requests with numbers that a check of the options would refuse: the size 0,
  the rotation -400 and the subtitle size -5, with the opacity 1.5, which pdf-lib rejects,
  and with the opacity 0, which it accepts.\<close>

definition unchecked_request :: request where
  "unchecked_request =
     sample_request\<lparr>watermarkOptions :=
       JObj [(''size'', JNum (Fin 0)), (''opacity'', JNum (Fin 1.5)),
             (''rotate'', JNum (Fin (- 400))), (''sizesubtitle'', JNum (Fin (- 5)))]\<rparr>"

definition falsy_request :: request where
  "falsy_request =
     sample_request\<lparr>watermarkOptions :=
       JObj [(''size'', JNum (Fin 0)), (''opacity'', JNum (Fin 0)),
             (''rotate'', JNum (Fin (- 400))), (''sizesubtitle'', JNum (Fin (- 5)))]\<rparr>"

text \<open>Two notions used to state the properties of the name fields: the value is a string
  or the key is missing, and the text such a value stands for.\<close>

definition string_or_absent :: "jsval \<Rightarrow> bool" where
  "string_or_absent v = (case v of JStr s \<Rightarrow> True | JUndefined \<Rightarrow> True | _ \<Rightarrow> False)"

definition text_of :: "jsval \<Rightarrow> string" where
  "text_of v = (case v of JStr s \<Rightarrow> s | _ \<Rightarrow> [])"

section \<open>Facts about the handler\<close>

lemma finalWatermarkOptions_lookup:
  "finalWatermarkOptions req k =
     (case map_of (own_props (watermarkOptions req)) k of
        Some v \<Rightarrow> Some v
      | None \<Rightarrow> map_of (own_props defaultWatermarkOptions) k)"
  by (simp add: finalWatermarkOptions_def spread_def map_add_def split: option.splits)

lemma ToString_name_part:
  "string_or_absent v \<Longrightarrow> ToString e (js_or v (JStr [])) = Inr (text_of v)"
  by (cases v) (simp_all add: string_or_absent_def text_of_def js_or_def)

lemma drawText_Inr:
  "drawText e p t opts = Inr p' \<Longrightarrow> p' = p\<lparr>page_drawn := page_drawn p @ [(t, opts)]\<rparr>"
  by (auto simp: drawText_def split: option.splits)

lemma placeWatermark_Inr:
  assumes "placeWatermark e mainFont subtitleFont line1 line2 opts p = Inr p'"
  shows "\<exists>rot w h.
           degrees e (get_prop opts ''rotate'') = Inr rot
         \<and> widthOfTextAtSize e mainFont line1 (get_prop opts ''size'') = Inr w
         \<and> ToNumber e (get_prop opts ''size'') = Inr h
         \<and> p' = p\<lparr>page_drawn := page_drawn p @
               [(line1,
                 \<lparr>dt_x = js_sub e (js_div e (Fin (page_width p)) (Fin 2)) (js_div e w (Fin 2)),
                  dt_y = js_sub e (js_div e (Fin (page_height p)) (Fin 2)) (js_div e h (Fin 2)),
                  dt_size = get_prop opts ''size'',
                  dt_opacity = get_prop opts ''opacity'',
                  dt_rotate = rot,
                  dt_font = mainFont,
                  dt_color = RGB 0.5 0.5 0.5\<rparr>),
                (line2,
                 \<lparr>dt_x = js_add e (js_sub e (js_div e (Fin (page_width p)) (Fin 2)) (js_div e w (Fin 2)))
                          (Fin (- 20)),
                  dt_y = js_add e (js_sub e (js_div e (Fin (page_height p)) (Fin 2)) (js_div e h (Fin 2)))
                          (Fin (- 30)),
                  dt_size = get_prop opts ''sizesubtitle'',
                  dt_opacity = get_prop opts ''opacity'',
                  dt_rotate = rot,
                  dt_font = subtitleFont,
                  dt_color = RGB 0.5 0.5 0.5\<rparr>)]\<rparr>"
  using assms
  by (auto simp: placeWatermark_def Let_def rgb_def split: sum.splits dest!: drawText_Inr)

lemma degrees_Inr: "degrees e v = Inr rot \<Longrightarrow> rot = Degrees v"
  by (auto simp: degrees_def split: option.splits)

lemma placeWatermark_draws_line2_last:
  "placeWatermark e f g l1 l2 opts p = Inr p' \<Longrightarrow> fst (last (page_drawn p')) = l2"
  by (auto dest!: placeWatermark_Inr)

lemma fontGuard_loaded: "sarabunFontLoaded st \<Longrightarrow> fontGuard e st = (Inr (), st)"
  by (simp add: fontGuard_def)

lemma fontGuard_read:
  "\<not> sarabunFontLoaded st \<Longrightarrow> readFile e fontPath = Inr b \<Longrightarrow>
     fontGuard e st = (Inr (), st\<lparr>sarabunFontBytes := Some b, sarabunFontLoaded := True\<rparr>)"
  by (simp add: fontGuard_def loadSarabunFont_def)

lemma fontGuard_failed:
  "\<not> sarabunFontLoaded st \<Longrightarrow> readFile e fontPath = Inl m \<Longrightarrow>
     fontGuard e st = (Inl (''Failed to load Sarabun font: '' @ m), st)"
  by (simp add: fontGuard_def loadSarabunFont_def)

lemma addWatermark_guard_failed:
  "fontGuard e st = (Inl m, st1) \<Longrightarrow>
     addWatermark e st req = (\<lparr>status = 500, body = ErrorBody m\<rparr>, st1)"
  by (simp add: addWatermark_def)

lemma addWatermark_missing_pdf:
  "fontGuard e st = (Inr u, st1) \<Longrightarrow> \<not> truthy (pdfBase64 req) \<Longrightarrow>
     addWatermark e st req
       = (\<lparr>status = 400, body = ErrorBody ''PDF data (pdfBase64) is required.''\<rparr>, st1)"
  by (simp add: addWatermark_def)

lemma addWatermark_try:
  "fontGuard e st = (Inr u, st1) \<Longrightarrow> truthy (pdfBase64 req) \<Longrightarrow>
     addWatermark e st req
       = (case tryBlock e (sarabunFontBytes st1) req of
            Inr out \<Rightarrow> (\<lparr>status = 200, body = SuccessBody out\<rparr>, st1)
          | Inl m \<Rightarrow>
              (\<lparr>status = 500, body = ErrorDetailsBody ''Failed to generate watermarked PDF'' m\<rparr>,
               st1))"
  by (simp add: addWatermark_def)

text \<open>Nothing after the guard reads the file system.\<close>

lemma ToString_readFile: "ToString (e\<lparr>readFile := r\<rparr>) v = ToString e v"
  by (cases v) simp_all

lemma ToNumber_readFile: "ToNumber (e\<lparr>readFile := r\<rparr>) v = ToNumber e v"
  by (cases v) simp_all

lemma js_add_readFile: "js_add (e\<lparr>readFile := r\<rparr>) a b = js_add e a b"
  by (cases a; cases b) simp_all

lemma js_sub_readFile: "js_sub (e\<lparr>readFile := r\<rparr>) a b = js_sub e a b"
  by (simp add: js_sub_def js_add_readFile)

lemma js_div_readFile: "js_div (e\<lparr>readFile := r\<rparr>) a b = js_div e a b"
  by (cases a; cases b) simp_all

lemma placeWatermark_readFile:
  "placeWatermark (e\<lparr>readFile := r\<rparr>) = placeWatermark e"
  by (intro ext)
    (simp add: placeWatermark_def degrees_def drawText_def ToNumber_readFile js_add_readFile
       js_sub_readFile js_div_readFile cong: sum.case_cong)

lemma tryBlock_readFile: "tryBlock (e\<lparr>readFile := r\<rparr>) fb req = tryBlock e fb req"
  by (simp add: tryBlock_def watermarkedDoc_def finalWatermarkLine2_def ToString_readFile
        placeWatermark_readFile cong: sum.case_cong)

lemma addWatermark_loaded_readFile:
  "sarabunFontLoaded st \<Longrightarrow> addWatermark (e\<lparr>readFile := r\<rparr>) st req = addWatermark e st req"
  by (simp add: addWatermark_def fontGuard_def tryBlock_readFile)

lemma snd_addWatermark: "snd (addWatermark e st req) = snd (fontGuard e st)"
  by (simp add: addWatermark_def split: prod.splits sum.splits)

lemma forEach_Inr:
  "forEach f ps = Inr ps' \<Longrightarrow>
     length ps' = length ps \<and> (\<forall>i<length ps. f (ps ! i) = Inr (ps' ! i))"
proof (induction ps arbitrary: ps')
  case Nil
  then show ?case by simp
next
  case (Cons p ps)
  from Cons.prems obtain q qs where q: "f p = Inr q" and qs: "forEach f ps = Inr qs"
    and ps': "ps' = q # qs"
    by (auto split: sum.splits)
  from Cons.IH [OF qs] q ps' show ?case
    by (auto simp: nth_Cons split: nat.splits)
qed

lemma forEach_Inl:
  "forEach f ps = Inl m \<Longrightarrow>
     \<exists>i<length ps. f (ps ! i) = Inl m \<and> (\<forall>j<i. \<exists>q. f (ps ! j) = Inr q)"
proof (induction ps)
  case Nil
  then show ?case by simp
next
  case (Cons p ps)
  show ?case
  proof (cases "f p")
    case (Inl a)
    with Cons.prems have "a = m" by simp
    with Inl have "f ((p # ps) ! 0) = Inl m \<and> (\<forall>j<0. \<exists>q. f ((p # ps) ! j) = Inr q)"
      by simp
    then show ?thesis by blast
  next
    case (Inr q)
    with Cons.prems have "forEach f ps = Inl m"
      by (simp split: sum.splits)
    from Cons.IH [OF this] obtain i where i: "i < length ps" "f (ps ! i) = Inl m"
      "\<forall>j<i. \<exists>q. f (ps ! j) = Inr q"
      by blast
    have "\<forall>j<Suc i. \<exists>q. f ((p # ps) ! j) = Inr q"
      using Inr i(3) by (auto simp: nth_Cons split: nat.splits)
    with i(1,2) have "Suc i < length (p # ps) \<and> f ((p # ps) ! Suc i) = Inl m
        \<and> (\<forall>j<Suc i. \<exists>q. f ((p # ps) ! j) = Inr q)"
      by simp
    then show ?thesis by blast
  qed
qed

lemma forEach_first_Inl:
  "i < length ps \<Longrightarrow> f (ps ! i) = Inl m \<Longrightarrow> (\<forall>j<i. \<exists>q. f (ps ! j) = Inr q) \<Longrightarrow>
     forEach f ps = Inl m"
proof (induction ps arbitrary: i)
  case Nil
  then show ?case by simp
next
  case (Cons p ps)
  show ?case
  proof (cases i)
    case 0
    with Cons.prems show ?thesis by simp
  next
    case (Suc k)
    with Cons.prems have k: "k < length ps" "f (ps ! k) = Inl m" by simp_all
    from Cons.prems(3) Suc have "\<forall>j<k. \<exists>q. f (ps ! j) = Inr q"
      by (metis Suc_less_eq nth_Cons_Suc)
    from Cons.IH [OF k this] have rest: "forEach f ps = Inl m" .
    from Cons.prems(3) Suc obtain q where "f p = Inr q"
      by (metis nth_Cons_0 zero_less_Suc)
    with rest show ?thesis by simp
  qed
qed

lemma forEach_total:
  "(\<forall>p\<in>set ps. \<exists>q. f p = Inr q) \<Longrightarrow> \<exists>ps'. forEach f ps = Inr ps'"
  by (induction ps) auto

lemma watermarkedDoc_Inr:
  assumes "watermarkedDoc e fb req = Inr d'"
  shows "\<exists>bs d f l2 pages'.
           bufferFrom e (pdfBase64 req) = Inr bs
         \<and> PDFDocument_load e bs = Inr d
         \<and> embedFont e (d\<lparr>doc_fontkit := True\<rparr>) fb = Inr f
         \<and> finalWatermarkLine2 e req = Inr l2
         \<and> forEach (placeWatermark e f f (finalWatermarkLine1 req) (JStr l2)
                      (finalWatermarkOptions req)) (doc_pages d) = Inr pages'
         \<and> d' = d\<lparr>doc_fontkit := True, doc_fonts := doc_fonts d @ [f], doc_pages := pages'\<rparr>"
  using assms
  by (auto simp: watermarkedDoc_def Let_def split: sum.splits)

lemma watermarkedDoc_decode_throws:
  "bufferFrom e (pdfBase64 req) = Inl m \<Longrightarrow> watermarkedDoc e fb req = Inl m"
  by (simp add: watermarkedDoc_def)

lemma watermarkedDoc_parse_throws:
  "bufferFrom e (pdfBase64 req) = Inr bs \<Longrightarrow> PDFDocument_load e bs = Inl m \<Longrightarrow>
     watermarkedDoc e fb req = Inl m"
  by (simp add: watermarkedDoc_def)

lemma watermarkedDoc_embed_throws:
  "bufferFrom e (pdfBase64 req) = Inr bs \<Longrightarrow> PDFDocument_load e bs = Inr d \<Longrightarrow>
   embedFont e (d\<lparr>doc_fontkit := True\<rparr>) fb = Inl m \<Longrightarrow>
     watermarkedDoc e fb req = Inl m"
  by (simp add: watermarkedDoc_def)

lemma watermarkedDoc_pages:
  "bufferFrom e (pdfBase64 req) = Inr bs \<Longrightarrow> PDFDocument_load e bs = Inr d \<Longrightarrow>
   embedFont e (d\<lparr>doc_fontkit := True\<rparr>) fb = Inr f \<Longrightarrow>
   finalWatermarkLine2 e req = Inr l2 \<Longrightarrow>
     watermarkedDoc e fb req
       = (case forEach (placeWatermark e f f (finalWatermarkLine1 req) (JStr l2)
                          (finalWatermarkOptions req)) (doc_pages d) of
            Inl m \<Rightarrow> Inl m
          | Inr pages' \<Rightarrow>
              Inr (d\<lparr>doc_fontkit := True, doc_fonts := doc_fonts d @ [f],
                     doc_pages := pages'\<rparr>))"
  by (simp add: watermarkedDoc_def Let_def)

lemma tryBlock_doc_throws:
  "watermarkedDoc e fb req = Inl m \<Longrightarrow> tryBlock e fb req = Inl m"
  by (simp add: tryBlock_def)

lemma tryBlock_save_throws:
  "watermarkedDoc e fb req = Inr d' \<Longrightarrow> save e d' = Inl m \<Longrightarrow> tryBlock e fb req = Inl m"
  by (simp add: tryBlock_def)

lemma tryBlock_saved:
  "watermarkedDoc e fb req = Inr d' \<Longrightarrow> save e d' = Inr saved \<Longrightarrow>
     tryBlock e fb req = Inr (toBase64 e saved)"
  by (simp add: tryBlock_def)

lemma tryBlock_Inr:
  "tryBlock e fb req = Inr out \<Longrightarrow>
     \<exists>d' saved. watermarkedDoc e fb req = Inr d' \<and> save e d' = Inr saved
       \<and> out = toBase64 e saved"
  by (auto simp: tryBlock_def split: sum.splits)

lemma addWatermark_throws:
  "fontGuard e st = (Inr u, st1) \<Longrightarrow> truthy (pdfBase64 req) \<Longrightarrow>
   tryBlock e (sarabunFontBytes st1) req = Inl m \<Longrightarrow>
     addWatermark e st req = (documentProcessingFailure m, st1)"
  by (simp add: addWatermark_try documentProcessingFailure_def)

lemma addWatermark_success:
  "fontGuard e st = (Inr u, st1) \<Longrightarrow> truthy (pdfBase64 req) \<Longrightarrow>
   tryBlock e (sarabunFontBytes st1) req = Inr out \<Longrightarrow>
     addWatermark e st req = (\<lparr>status = 200, body = SuccessBody out\<rparr>, st1)"
  by (simp add: addWatermark_try)

lemma addWatermark_200:
  assumes "addWatermark e st req = (\<lparr>status = 200, body = SuccessBody out\<rparr>, st1)"
  shows "fst (fontGuard e st) = Inr () \<and> snd (fontGuard e st) = st1 \<and> truthy (pdfBase64 req)
       \<and> tryBlock e (sarabunFontBytes st1) req = Inr out"
  using assms
  by (auto simp: addWatermark_def split: prod.splits sum.splits if_splits)

lemma placeWatermark_two_draws:
  assumes "placeWatermark e f g l1 l2 opts p = Inr p'"
  shows "page_width p' = page_width p \<and> page_height p' = page_height p
       \<and> (\<exists>o1 o2. page_drawn p' = page_drawn p @ [(l1, o1), (l2, o2)])"
  using placeWatermark_Inr [OF assms] by auto

lemma placeWatermark_calls:
  assumes "degrees_throws e (get_prop opts ''rotate'') = None"
      and "widthOfTextAtSize e mainFont line1 (get_prop opts ''size'') = Inr w"
      and "ToNumber e (get_prop opts ''size'') = Inr h"
  shows "placeWatermark e mainFont subtitleFont line1 line2 opts p
       = (case drawText e p line1
                 \<lparr>dt_x = js_sub e (js_div e (Fin (page_width p)) (Fin 2)) (js_div e w (Fin 2)),
                  dt_y = js_sub e (js_div e (Fin (page_height p)) (Fin 2)) (js_div e h (Fin 2)),
                  dt_size = get_prop opts ''size'',
                  dt_opacity = get_prop opts ''opacity'',
                  dt_rotate = Degrees (get_prop opts ''rotate''),
                  dt_font = mainFont,
                  dt_color = RGB 0.5 0.5 0.5\<rparr> of
            Inl m \<Rightarrow> Inl m
          | Inr p1 \<Rightarrow>
              drawText e p1 line2
                \<lparr>dt_x = js_add e (js_sub e (js_div e (Fin (page_width p)) (Fin 2))
                                    (js_div e w (Fin 2))) (Fin (- 20)),
                 dt_y = js_add e (js_sub e (js_div e (Fin (page_height p)) (Fin 2))
                                    (js_div e h (Fin 2))) (Fin (- 30)),
                 dt_size = get_prop opts ''sizesubtitle'',
                 dt_opacity = get_prop opts ''opacity'',
                 dt_rotate = Degrees (get_prop opts ''rotate''),
                 dt_font = subtitleFont,
                 dt_color = RGB 0.5 0.5 0.5\<rparr>)"
  using assms
  by (simp add: placeWatermark_def degrees_def rgb_def Let_def cong: sum.case_cong)

lemma drawText_rejected:
  "drawText_throws e p t opts = Some m \<Longrightarrow> drawText e p t opts = Inl m"
  by (simp add: drawText_def)

lemma drawText_accepted:
  "drawText_throws e p t opts = None \<Longrightarrow>
     drawText e p t opts = Inr (p\<lparr>page_drawn := page_drawn p @ [(t, opts)]\<rparr>)"
  by (simp add: drawText_def)

lemma tryBlock_Inr_pages:
  assumes "tryBlock e fb req = Inr out"
  shows "\<exists>bs d f l2 pages' saved.
           (bufferFrom e (pdfBase64 req) = Inr bs
          \<and> PDFDocument_load e bs = Inr d
          \<and> embedFont e (d\<lparr>doc_fontkit := True\<rparr>) fb = Inr f
          \<and> finalWatermarkLine2 e req = Inr l2
          \<and> length pages' = length (doc_pages d)
          \<and> (\<forall>i<length (doc_pages d).
                 placeWatermark e f f (finalWatermarkLine1 req) (JStr l2)
                   (finalWatermarkOptions req) (doc_pages d ! i) = Inr (pages' ! i)
               \<and> page_width (pages' ! i) = page_width (doc_pages d ! i)
               \<and> page_height (pages' ! i) = page_height (doc_pages d ! i)
               \<and> (\<exists>o1 o2. page_drawn (pages' ! i)
                     = page_drawn (doc_pages d ! i)
                         @ [(finalWatermarkLine1 req, o1), (JStr l2, o2)]))
          \<and> save e (d\<lparr>doc_fontkit := True, doc_fonts := doc_fonts d @ [f],
                        doc_pages := pages'\<rparr>) = Inr saved)
          \<and> out = toBase64 e saved"
proof -
  from tryBlock_Inr [OF assms] obtain d' saved where
    d': "watermarkedDoc e fb req = Inr d'" and
    saved: "save e d' = Inr saved" and out: "out = toBase64 e saved"
    by blast
  from watermarkedDoc_Inr [OF d'] obtain bs d f l2 pages' where
    bs: "bufferFrom e (pdfBase64 req) = Inr bs" and
    d: "PDFDocument_load e bs = Inr d" and
    f: "embedFont e (d\<lparr>doc_fontkit := True\<rparr>) fb = Inr f" and
    l2: "finalWatermarkLine2 e req = Inr l2" and
    each: "forEach (placeWatermark e f f (finalWatermarkLine1 req) (JStr l2)
                      (finalWatermarkOptions req)) (doc_pages d) = Inr pages'" and
    d'_eq: "d' = d\<lparr>doc_fontkit := True, doc_fonts := doc_fonts d @ [f], doc_pages := pages'\<rparr>"
    by blast
  from forEach_Inr [OF each] have
    len: "length pages' = length (doc_pages d)" and
    nth: "\<And>i. i < length (doc_pages d) \<Longrightarrow>
            placeWatermark e f f (finalWatermarkLine1 req) (JStr l2)
              (finalWatermarkOptions req) (doc_pages d ! i) = Inr (pages' ! i)"
    by blast+
  have pages: "\<forall>i<length (doc_pages d).
                 placeWatermark e f f (finalWatermarkLine1 req) (JStr l2)
                   (finalWatermarkOptions req) (doc_pages d ! i) = Inr (pages' ! i)
               \<and> page_width (pages' ! i) = page_width (doc_pages d ! i)
               \<and> page_height (pages' ! i) = page_height (doc_pages d ! i)
               \<and> (\<exists>o1 o2. page_drawn (pages' ! i)
                     = page_drawn (doc_pages d ! i)
                         @ [(finalWatermarkLine1 req, o1), (JStr l2, o2)])"
    using nth placeWatermark_two_draws by blast
  from bs d f l2 len pages saved out d'_eq show ?thesis by blast
qed

section \<open>The concrete environment, evaluated\<close>

lemma placeWatermark_sample:
  "placeWatermark sample_env (PDFFont sample_font_bytes) (PDFFont sample_font_bytes)
     (JStr ''CONFIDENTIAL'') (JStr ''Jane Doe'') (finalWatermarkOptions sample_request)
     letter_page
   = Inr \<lparr>page_width = 612, page_height = 792,
          page_drawn =
            [(JStr ''CONFIDENTIAL'',
              \<lparr>dt_x = Fin 111, dt_y = Fin 363.5, dt_size = JNum (Fin 65), dt_opacity = JNum (Fin 0.2),
               dt_rotate = Degrees (JNum (Fin (- 45))), dt_font = PDFFont sample_font_bytes,
               dt_color = RGB 0.5 0.5 0.5\<rparr>),
             (JStr ''Jane Doe'',
              \<lparr>dt_x = Fin 91, dt_y = Fin 333.5, dt_size = JNum (Fin 40), dt_opacity = JNum (Fin 0.2),
               dt_rotate = Degrees (JNum (Fin (- 45))), dt_font = PDFFont sample_font_bytes,
               dt_color = RGB 0.5 0.5 0.5\<rparr>)]\<rparr>"
  by (simp add: placeWatermark_def sample_env_def sample_request_def letter_page_def
        finalWatermarkOptions_def spread_def defaultWatermarkOptions_def get_prop_def
        degrees_def drawText_def rgb_def js_sub_def Let_def)

lemma fontGuard_loaded_state: "fontGuard e loaded_state = (Inr (), loaded_state)"
  by (simp add: fontGuard_def loaded_state_def)

lemma sample_decode:
  "bufferFrom sample_env (pdfBase64 sample_request) = Inr sample_pdf_bytes"
  "bufferFrom sample_env (pdfBase64 unchecked_request) = Inr sample_pdf_bytes"
  "bufferFrom sample_env (JStr ''bm90IGEgUERG'') = Inr []"
  by (simp_all add: sample_env_def sample_request_def unchecked_request_def)

lemma sample_parse:
  "PDFDocument_load sample_env sample_pdf_bytes = Inr sample_doc"
  "PDFDocument_load sample_env [] = Inl ''No PDF header found''"
  by (simp_all add: sample_env_def sample_pdf_bytes_def)

lemma sample_embed:
  "embedFont sample_env (sample_doc\<lparr>doc_fontkit := True\<rparr>) (sarabunFontBytes loaded_state)
     = Inr (PDFFont sample_font_bytes)"
  by (simp add: sample_env_def loaded_state_def)

lemma sample_line2:
  "finalWatermarkLine2 sample_env sample_request = Inr ''Jane Doe''"
  "finalWatermarkLine2 sample_env unchecked_request = Inr ''Jane Doe''"
  by (simp_all add: finalWatermarkLine2_def sample_request_def unchecked_request_def js_or_def)

lemma sample_line1:
  "finalWatermarkLine1 sample_request = JStr ''CONFIDENTIAL''"
  "finalWatermarkLine1 unchecked_request = JStr ''CONFIDENTIAL''"
  by (simp_all add: finalWatermarkLine1_def sample_request_def unchecked_request_def js_or_def)

lemma placeWatermark_rejected:
  "placeWatermark sample_env (PDFFont sample_font_bytes) (PDFFont sample_font_bytes)
     (JStr ''CONFIDENTIAL'') (JStr ''Jane Doe'') (finalWatermarkOptions unchecked_request)
     letter_page
   = Inl ''opacity must be at least 0 and at most 1''"
  by (simp add: placeWatermark_def sample_env_def sample_request_def unchecked_request_def
        letter_page_def finalWatermarkOptions_def spread_def defaultWatermarkOptions_def
        get_prop_def degrees_def drawText_def rgb_def js_sub_def Let_def)

lemma placeWatermark_sample_a4:
  "placeWatermark sample_env (PDFFont sample_font_bytes) (PDFFont sample_font_bytes)
     (JStr ''CONFIDENTIAL'') (JStr ''Jane Doe'') (finalWatermarkOptions sample_request)
     a4_page
   = Inr \<lparr>page_width = 595, page_height = 842,
          page_drawn =
            [(JStr ''CONFIDENTIAL'',
              \<lparr>dt_x = Fin 102.5, dt_y = Fin 388.5, dt_size = JNum (Fin 65), dt_opacity = JNum (Fin 0.2),
               dt_rotate = Degrees (JNum (Fin (- 45))), dt_font = PDFFont sample_font_bytes,
               dt_color = RGB 0.5 0.5 0.5\<rparr>),
             (JStr ''Jane Doe'',
              \<lparr>dt_x = Fin 82.5, dt_y = Fin 358.5, dt_size = JNum (Fin 40), dt_opacity = JNum (Fin 0.2),
               dt_rotate = Degrees (JNum (Fin (- 45))), dt_font = PDFFont sample_font_bytes,
               dt_color = RGB 0.5 0.5 0.5\<rparr>)]\<rparr>"
  by (simp add: placeWatermark_def sample_env_def sample_request_def a4_page_def
        finalWatermarkOptions_def spread_def defaultWatermarkOptions_def get_prop_def
        degrees_def drawText_def rgb_def js_sub_def Let_def)

lemma sample_save: "save sample_env d = Inr sample_pdf_bytes"
  by (simp add: sample_env_def)

lemma sample_toBase64: "toBase64 sample_env sample_pdf_bytes = ''JVBERg==''"
  by (simp add: sample_env_def)

lemma addWatermark_sample:
  "addWatermark sample_env loaded_state sample_request
     = (\<lparr>status = 200, body = SuccessBody ''JVBERg==''\<rparr>, loaded_state)"
proof -
  have pages: "forEach (placeWatermark sample_env (PDFFont sample_font_bytes)
        (PDFFont sample_font_bytes) (finalWatermarkLine1 sample_request) (JStr ''Jane Doe'')
        (finalWatermarkOptions sample_request)) (doc_pages sample_doc)
      = Inr [\<lparr>page_width = 612, page_height = 792,
          page_drawn =
            [(JStr ''CONFIDENTIAL'',
              \<lparr>dt_x = Fin 111, dt_y = Fin 363.5, dt_size = JNum (Fin 65), dt_opacity = JNum (Fin 0.2),
               dt_rotate = Degrees (JNum (Fin (- 45))), dt_font = PDFFont sample_font_bytes,
               dt_color = RGB 0.5 0.5 0.5\<rparr>),
             (JStr ''Jane Doe'',
              \<lparr>dt_x = Fin 91, dt_y = Fin 333.5, dt_size = JNum (Fin 40), dt_opacity = JNum (Fin 0.2),
               dt_rotate = Degrees (JNum (Fin (- 45))), dt_font = PDFFont sample_font_bytes,
               dt_color = RGB 0.5 0.5 0.5\<rparr>)]\<rparr>,
         \<lparr>page_width = 595, page_height = 842,
          page_drawn =
            [(JStr ''CONFIDENTIAL'',
              \<lparr>dt_x = Fin 102.5, dt_y = Fin 388.5, dt_size = JNum (Fin 65), dt_opacity = JNum (Fin 0.2),
               dt_rotate = Degrees (JNum (Fin (- 45))), dt_font = PDFFont sample_font_bytes,
               dt_color = RGB 0.5 0.5 0.5\<rparr>),
             (JStr ''Jane Doe'',
              \<lparr>dt_x = Fin 82.5, dt_y = Fin 358.5, dt_size = JNum (Fin 40), dt_opacity = JNum (Fin 0.2),
               dt_rotate = Degrees (JNum (Fin (- 45))), dt_font = PDFFont sample_font_bytes,
               dt_color = RGB 0.5 0.5 0.5\<rparr>)]\<rparr>]"
    by (simp add: sample_doc_def sample_line1 placeWatermark_sample placeWatermark_sample_a4)
  have "tryBlock sample_env (sarabunFontBytes loaded_state) sample_request = Inr ''JVBERg==''"
    by (simp add: tryBlock_def watermarkedDoc_pages [OF sample_decode(1) sample_parse(1)
          sample_embed sample_line2(1)] pages sample_save sample_toBase64)
  from addWatermark_success [OF fontGuard_loaded_state _ this]
  show ?thesis by (simp add: sample_request_def)
qed

lemma placeWatermark_blank:
  "placeWatermark sample_env (PDFFont sample_font_bytes) (PDFFont sample_font_bytes)
     (JStr ''CONFIDENTIAL'') (JStr '' '') (finalWatermarkOptions sample_request)
     letter_page
   = Inr \<lparr>page_width = 612, page_height = 792,
          page_drawn =
            [(JStr ''CONFIDENTIAL'',
              \<lparr>dt_x = Fin 111, dt_y = Fin 363.5, dt_size = JNum (Fin 65), dt_opacity = JNum (Fin 0.2),
               dt_rotate = Degrees (JNum (Fin (- 45))), dt_font = PDFFont sample_font_bytes,
               dt_color = RGB 0.5 0.5 0.5\<rparr>),
             (JStr '' '',
              \<lparr>dt_x = Fin 91, dt_y = Fin 333.5, dt_size = JNum (Fin 40), dt_opacity = JNum (Fin 0.2),
               dt_rotate = Degrees (JNum (Fin (- 45))), dt_font = PDFFont sample_font_bytes,
               dt_color = RGB 0.5 0.5 0.5\<rparr>)]\<rparr>"
  by (simp add: placeWatermark_def sample_env_def sample_request_def letter_page_def
        finalWatermarkOptions_def spread_def defaultWatermarkOptions_def get_prop_def
        degrees_def drawText_def rgb_def js_sub_def Let_def)

lemma placeWatermark_falsy:
  "placeWatermark sample_env (PDFFont sample_font_bytes) (PDFFont sample_font_bytes)
     (JStr ''CONFIDENTIAL'') (JStr ''Jane Doe'') (finalWatermarkOptions falsy_request)
     letter_page
   = Inr \<lparr>page_width = 612, page_height = 792,
          page_drawn =
            [(JStr ''CONFIDENTIAL'',
              \<lparr>dt_x = Fin 306, dt_y = Fin 396, dt_size = JNum (Fin 0),
               dt_opacity = JNum (Fin 0), dt_rotate = Degrees (JNum (Fin (- 400))),
               dt_font = PDFFont sample_font_bytes, dt_color = RGB 0.5 0.5 0.5\<rparr>),
             (JStr ''Jane Doe'',
              \<lparr>dt_x = Fin 286, dt_y = Fin 366, dt_size = JNum (Fin (- 5)),
               dt_opacity = JNum (Fin 0), dt_rotate = Degrees (JNum (Fin (- 400))),
               dt_font = PDFFont sample_font_bytes, dt_color = RGB 0.5 0.5 0.5\<rparr>)]\<rparr>"
  by (simp add: placeWatermark_def sample_env_def sample_request_def falsy_request_def
        letter_page_def finalWatermarkOptions_def spread_def defaultWatermarkOptions_def
        get_prop_def degrees_def drawText_def rgb_def js_sub_def Let_def)

section \<open>Merging the options\<close>

text \<open>
  C3. The merge of \<^verbatim>\<open>watermarkOptions\<close> over the defaults is field by field: for every
  object the caller sends, a key it holds takes the caller's value, whatever the other keys
  are, and each of \<^verbatim>\<open>size\<close>, \<^verbatim>\<open>opacity\<close>, \<^verbatim>\<open>rotate\<close> and \<^verbatim>\<open>sizesubtitle\<close> that it does
  not hold keeps its default 65, 0.2, -45 and 40.
\<close>

theorem option_merge_field_independent:
  assumes "watermarkOptions req = JObj kvs"
  shows "(\<forall>k v. map_of kvs k = Some v \<longrightarrow> get_prop (finalWatermarkOptions req) k = v)
       \<and> (map_of kvs ''size'' = None \<longrightarrow> get_prop (finalWatermarkOptions req) ''size'' = JNum (Fin 65))
       \<and> (map_of kvs ''opacity'' = None \<longrightarrow>
            get_prop (finalWatermarkOptions req) ''opacity'' = JNum (Fin 0.2))
       \<and> (map_of kvs ''rotate'' = None \<longrightarrow>
            get_prop (finalWatermarkOptions req) ''rotate'' = JNum (Fin (- 45)))
       \<and> (map_of kvs ''sizesubtitle'' = None \<longrightarrow>
            get_prop (finalWatermarkOptions req) ''sizesubtitle'' = JNum (Fin 40))"
  using assms
  by (simp add: get_prop_def finalWatermarkOptions_lookup defaultWatermarkOptions_def)

text \<open>Only \<^verbatim>\<open>opacity\<close> is sent: the other three fields are 65, -45 and 40.\<close>

theorem option_merge_field_independent_witness:
  "watermarkOptions (sample_request\<lparr>watermarkOptions := JObj [(''opacity'', JNum (Fin 0.5))]\<rparr>)
     = JObj [(''opacity'', JNum (Fin 0.5))]
   \<and> get_prop (finalWatermarkOptions
        (sample_request\<lparr>watermarkOptions := JObj [(''opacity'', JNum (Fin 0.5))]\<rparr>)) ''opacity''
       = JNum (Fin 0.5)
   \<and> get_prop (finalWatermarkOptions
        (sample_request\<lparr>watermarkOptions := JObj [(''opacity'', JNum (Fin 0.5))]\<rparr>)) ''size''
       = JNum (Fin 65)
   \<and> get_prop (finalWatermarkOptions
        (sample_request\<lparr>watermarkOptions := JObj [(''opacity'', JNum (Fin 0.5))]\<rparr>)) ''rotate''
       = JNum (Fin (- 45))
   \<and> get_prop (finalWatermarkOptions
        (sample_request\<lparr>watermarkOptions := JObj [(''opacity'', JNum (Fin 0.5))]\<rparr>)) ''sizesubtitle''
       = JNum (Fin 40)"
  using option_merge_field_independent
    [of "sample_request\<lparr>watermarkOptions := JObj [(''opacity'', JNum (Fin 0.5))]\<rparr>"
        "[(''opacity'', JNum (Fin 0.5))]"]
  by simp

section \<open>The two lines of text\<close>

text \<open>
  C4, as stated, lets line 1 be \<^verbatim>\<open>watermarkLine1\<close> whenever the field is supplied. The
  handler tests the value, not the presence of the key: a request that supplies the empty
  string gets \<^verbatim>\<open>CONFIDENTIAL\<close>.
\<close>

theorem line1_supplied_empty_counterexample:
  "watermarkLine1 (sample_request\<lparr>watermarkLine1 := JStr ''''\<rparr>) = JStr ''''
   \<and> finalWatermarkLine1 (sample_request\<lparr>watermarkLine1 := JStr ''''\<rparr>) = JStr ''CONFIDENTIAL''
   \<and> finalWatermarkLine1 (sample_request\<lparr>watermarkLine1 := JStr ''''\<rparr>)
       \<noteq> watermarkLine1 (sample_request\<lparr>watermarkLine1 := JStr ''''\<rparr>)"
  by (simp add: finalWatermarkLine1_def js_or_def)

text \<open>
  C4, amended. Line 1 is \<^verbatim>\<open>watermarkLine1\<close> when that is truthy, for a string when it is
  not empty, and the literal \<^verbatim>\<open>CONFIDENTIAL\<close> when it is missing or empty. Line 2 is the first and the last
  name, each a string or missing and then empty, with exactly one space between them; with
  both missing it is a single space, and the callback draws it as the last text of the page
  all the same.
\<close>

theorem watermark_lines_resolved:
  "(truthy (watermarkLine1 req) \<longrightarrow> finalWatermarkLine1 req = watermarkLine1 req)
   \<and> (\<not> truthy (watermarkLine1 req) \<longrightarrow> finalWatermarkLine1 req = JStr ''CONFIDENTIAL'')
   \<and> (\<forall>s. watermarkLine1 req = JStr s \<and> s \<noteq> [] \<longrightarrow> finalWatermarkLine1 req = JStr s)
   \<and> (watermarkLine1 req = JUndefined \<or> watermarkLine1 req = JStr []
        \<longrightarrow> finalWatermarkLine1 req = JStr ''CONFIDENTIAL'')
   \<and> (string_or_absent (firstName req) \<and> string_or_absent (lastName req)
        \<longrightarrow> finalWatermarkLine2 e req
              = Inr (text_of (firstName req) @ '' '' @ text_of (lastName req)))
   \<and> (firstName req = JUndefined \<and> lastName req = JUndefined
        \<longrightarrow> finalWatermarkLine2 e req = Inr '' '')
   \<and> (\<forall>f g l1 opts p p'. placeWatermark e f g l1 (JStr '' '') opts p = Inr p'
        \<longrightarrow> fst (last (page_drawn p')) = JStr '' '')"
proof -
  have t1: "truthy (watermarkLine1 req) \<longrightarrow> finalWatermarkLine1 req = watermarkLine1 req"
    by (simp add: finalWatermarkLine1_def js_or_def)
  have t2: "\<not> truthy (watermarkLine1 req) \<longrightarrow> finalWatermarkLine1 req = JStr ''CONFIDENTIAL''"
    by (simp add: finalWatermarkLine1_def js_or_def)
  have l1: "\<forall>s. watermarkLine1 req = JStr s \<and> s \<noteq> [] \<longrightarrow> finalWatermarkLine1 req = JStr s"
    by (simp add: finalWatermarkLine1_def js_or_def)
  have l1d: "watermarkLine1 req = JUndefined \<or> watermarkLine1 req = JStr []
        \<longrightarrow> finalWatermarkLine1 req = JStr ''CONFIDENTIAL''"
    by (auto simp: finalWatermarkLine1_def js_or_def)
  have l2: "string_or_absent (firstName req) \<and> string_or_absent (lastName req)
        \<longrightarrow> finalWatermarkLine2 e req
              = Inr (text_of (firstName req) @ '' '' @ text_of (lastName req))"
    by (simp add: finalWatermarkLine2_def ToString_name_part)
  have l2e: "firstName req = JUndefined \<and> lastName req = JUndefined
        \<longrightarrow> finalWatermarkLine2 e req = Inr '' ''"
    by (simp add: finalWatermarkLine2_def js_or_def)
  have dr: "\<forall>f g l1 opts p p'. placeWatermark e f g l1 (JStr '' '') opts p = Inr p'
        \<longrightarrow> fst (last (page_drawn p')) = JStr '' ''"
    by (blast dest: placeWatermark_draws_line2_last)
  from t1 t2 l1 l1d l2 l2e dr show ?thesis by blast
qed

text \<open>Jane Doe without a first line; a first line of her own; no names at all, drawn on
  the US Letter page.\<close>

theorem watermark_lines_resolved_witness:
  "watermarkLine1 sample_request = JUndefined
   \<and> finalWatermarkLine1 sample_request = JStr ''CONFIDENTIAL''
   \<and> string_or_absent (firstName sample_request) \<and> string_or_absent (lastName sample_request)
   \<and> finalWatermarkLine2 sample_env sample_request = Inr ''Jane Doe''
   \<and> watermarkLine1 (sample_request\<lparr>watermarkLine1 := JStr ''DRAFT''\<rparr>) = JStr ''DRAFT''
   \<and> finalWatermarkLine1 (sample_request\<lparr>watermarkLine1 := JStr ''DRAFT''\<rparr>) = JStr ''DRAFT''
   \<and> finalWatermarkLine2 sample_env
        (sample_request\<lparr>firstName := JUndefined, lastName := JUndefined\<rparr>) = Inr '' ''
   \<and> placeWatermark sample_env (PDFFont sample_font_bytes) (PDFFont sample_font_bytes)
        (JStr ''CONFIDENTIAL'') (JStr '' '') (finalWatermarkOptions sample_request)
        letter_page
       = Inr \<lparr>page_width = 612, page_height = 792,
              page_drawn =
                [(JStr ''CONFIDENTIAL'',
                  \<lparr>dt_x = Fin 111, dt_y = Fin 363.5, dt_size = JNum (Fin 65), dt_opacity = JNum (Fin 0.2),
                   dt_rotate = Degrees (JNum (Fin (- 45))), dt_font = PDFFont sample_font_bytes,
                   dt_color = RGB 0.5 0.5 0.5\<rparr>),
                 (JStr '' '',
                  \<lparr>dt_x = Fin 91, dt_y = Fin 333.5, dt_size = JNum (Fin 40), dt_opacity = JNum (Fin 0.2),
                   dt_rotate = Degrees (JNum (Fin (- 45))), dt_font = PDFFont sample_font_bytes,
                   dt_color = RGB 0.5 0.5 0.5\<rparr>)]\<rparr>"
proof -
  have names: "watermarkLine1 sample_request = JUndefined"
    "string_or_absent (firstName sample_request)" "string_or_absent (lastName sample_request)"
    "text_of (firstName sample_request) @ '' '' @ text_of (lastName sample_request) = ''Jane Doe''"
    by (simp_all add: sample_request_def string_or_absent_def text_of_def)
  have given: "finalWatermarkLine1 sample_request = JStr ''CONFIDENTIAL''"
    "finalWatermarkLine2 sample_env sample_request = Inr ''Jane Doe''"
    using watermark_lines_resolved [of sample_request sample_env] names by auto
  have own: "watermarkLine1 (sample_request\<lparr>watermarkLine1 := JStr ''DRAFT''\<rparr>) = JStr ''DRAFT''"
    by simp
  have draft: "finalWatermarkLine1 (sample_request\<lparr>watermarkLine1 := JStr ''DRAFT''\<rparr>)
      = JStr ''DRAFT''"
    using watermark_lines_resolved
      [of "sample_request\<lparr>watermarkLine1 := JStr ''DRAFT''\<rparr>" sample_env]
    by simp
  have blank: "finalWatermarkLine2 sample_env
        (sample_request\<lparr>firstName := JUndefined, lastName := JUndefined\<rparr>) = Inr '' ''"
    using watermark_lines_resolved
      [of "sample_request\<lparr>firstName := JUndefined, lastName := JUndefined\<rparr>" sample_env]
    by simp
  from names(1-3) given own draft blank placeWatermark_blank
  show ?thesis by blast
qed

text \<open>
  C9. The string defaults fall back on every falsy value, so the empty string counts as
  missing: an empty \<^verbatim>\<open>watermarkLine1\<close> gives \<^verbatim>\<open>CONFIDENTIAL\<close>, and an empty first or last
  name gives the same second line as the request without that key, with nothing on that side
  of the space.
\<close>

theorem empty_strings_as_absent:
  "(watermarkLine1 req = JStr '''' \<longrightarrow> finalWatermarkLine1 req = JStr ''CONFIDENTIAL'')
   \<and> (watermarkLine1 req = JStr ''''
        \<longrightarrow> finalWatermarkLine1 req = finalWatermarkLine1 (req\<lparr>watermarkLine1 := JUndefined\<rparr>))
   \<and> (firstName req = JStr ''''
        \<longrightarrow> finalWatermarkLine2 e req = finalWatermarkLine2 e (req\<lparr>firstName := JUndefined\<rparr>))
   \<and> (lastName req = JStr ''''
        \<longrightarrow> finalWatermarkLine2 e req = finalWatermarkLine2 e (req\<lparr>lastName := JUndefined\<rparr>))
   \<and> (firstName req = JStr '''' \<and> lastName req = JStr b
        \<longrightarrow> finalWatermarkLine2 e req = Inr ('' '' @ b))
   \<and> (firstName req = JStr a \<and> lastName req = JStr ''''
        \<longrightarrow> finalWatermarkLine2 e req = Inr (a @ '' ''))"
proof -
  have e: "\<And>d. js_or (JStr []) d = js_or JUndefined d"
    by (simp add: js_or_def)
  have d: "js_or JUndefined (JStr []) = JStr []" "\<And>s. js_or (JStr s) (JStr []) = JStr s"
    by (simp_all add: js_or_def)
  have c1: "watermarkLine1 req = JStr [] \<longrightarrow> finalWatermarkLine1 req = JStr ''CONFIDENTIAL''"
    by (simp add: finalWatermarkLine1_def js_or_def)
  have c2: "watermarkLine1 req = JStr []
        \<longrightarrow> finalWatermarkLine1 req = finalWatermarkLine1 (req\<lparr>watermarkLine1 := JUndefined\<rparr>)"
    by (simp add: finalWatermarkLine1_def e)
  have c3: "firstName req = JStr []
        \<longrightarrow> finalWatermarkLine2 e req = finalWatermarkLine2 e (req\<lparr>firstName := JUndefined\<rparr>)"
    by (simp add: finalWatermarkLine2_def e cong: sum.case_cong)
  have c4: "lastName req = JStr []
        \<longrightarrow> finalWatermarkLine2 e req = finalWatermarkLine2 e (req\<lparr>lastName := JUndefined\<rparr>)"
    by (simp add: finalWatermarkLine2_def e cong: sum.case_cong)
  have c5: "firstName req = JStr [] \<and> lastName req = JStr b
        \<longrightarrow> finalWatermarkLine2 e req = Inr ('' '' @ b)"
    by (simp add: finalWatermarkLine2_def e d)
  have c6: "firstName req = JStr a \<and> lastName req = JStr []
        \<longrightarrow> finalWatermarkLine2 e req = Inr (a @ '' '')"
    by (simp add: finalWatermarkLine2_def e d)
  from c1 c2 c3 c4 c5 c6 show ?thesis by blast
qed

theorem empty_strings_as_absent_witness:
  "watermarkLine1 (sample_request\<lparr>watermarkLine1 := JStr '''', firstName := JStr ''''\<rparr>) = JStr ''''
   \<and> firstName (sample_request\<lparr>watermarkLine1 := JStr '''', firstName := JStr ''''\<rparr>) = JStr ''''
   \<and> finalWatermarkLine1 (sample_request\<lparr>watermarkLine1 := JStr '''', firstName := JStr ''''\<rparr>)
       = JStr ''CONFIDENTIAL''
   \<and> finalWatermarkLine2 sample_env
        (sample_request\<lparr>watermarkLine1 := JStr '''', firstName := JStr ''''\<rparr>) = Inr '' Doe''
   \<and> lastName (sample_request\<lparr>lastName := JStr ''''\<rparr>) = JStr ''''
   \<and> finalWatermarkLine2 sample_env (sample_request\<lparr>lastName := JStr ''''\<rparr>) = Inr ''Jane ''"
  using empty_strings_as_absent
      [of "sample_request\<lparr>watermarkLine1 := JStr '''', firstName := JStr ''''\<rparr>" sample_env
          "''Doe''" "[]"]
    empty_strings_as_absent
      [of "sample_request\<lparr>lastName := JStr ''''\<rparr>" sample_env "[]" "''Jane''"]
  by (simp add: sample_request_def finalWatermarkLine2_def js_or_def)

section \<open>The placement on a page\<close>

text \<open>
  C1. On every page on which the callback completes, the first text it draws is line 1, at
  the origin \<open>(width / 2 - w / 2, height / 2 - size / 2)\<close> computed in the doubles of the
  language, where \<open>w\<close> is the width the font measures for line 1 at \<^verbatim>\<open>size\<close> and the height
  of the line is taken to be \<^verbatim>\<open>size\<close> itself: each coordinate is the rounded difference of
  two rounded halves, and it is the exact difference of the exact halves wherever these are
  doubles. The call carries the size \<^verbatim>\<open>size\<close>, the opacity \<^verbatim>\<open>opacity\<close>, the rotation
  \<^verbatim>\<open>degrees(rotate)\<close>, the embedded font and the gray \<open>rgb(0.5, 0.5, 0.5)\<close>. The call is made
  as soon as the library accepts the angle and measures the line and the size converts to a
  number: when \<^verbatim>\<open>drawText\<close> rejects it the callback throws its message, and otherwise the
  callback goes on to line 2 on the page that now holds line 1.
\<close>

theorem line1_centred_draw:
  "(\<forall>p'. placeWatermark e mainFont subtitleFont line1 line2 opts p = Inr p' \<longrightarrow>
      (\<exists>w h.
           widthOfTextAtSize e mainFont line1 (get_prop opts ''size'') = Inr w
         \<and> ToNumber e (get_prop opts ''size'') = Inr h
         \<and> page_drawn p' ! length (page_drawn p)
             = (line1,
                \<lparr>dt_x = js_sub e (js_div e (Fin (page_width p)) (Fin 2)) (js_div e w (Fin 2)),
                 dt_y = js_sub e (js_div e (Fin (page_height p)) (Fin 2)) (js_div e h (Fin 2)),
                 dt_size = get_prop opts ''size'',
                 dt_opacity = get_prop opts ''opacity'',
                 dt_rotate = Degrees (get_prop opts ''rotate''),
                 dt_font = mainFont,
                 dt_color = RGB 0.5 0.5 0.5\<rparr>)
         \<and> (\<forall>wr s cx hw cy hh.
                 w = Fin wr \<and> get_prop opts ''size'' = JNum (Fin s)
               \<and> roundDouble e (page_width p / 2) = Fin cx \<and> roundDouble e (wr / 2) = Fin hw
               \<and> roundDouble e (page_height p / 2) = Fin cy \<and> roundDouble e (s / 2) = Fin hh
               \<longrightarrow>
                 dt_x (snd (page_drawn p' ! length (page_drawn p))) = roundDouble e (cx - hw)
               \<and> dt_y (snd (page_drawn p' ! length (page_drawn p))) = roundDouble e (cy - hh))
         \<and> (\<forall>wr s.
                 w = Fin wr \<and> get_prop opts ''size'' = JNum (Fin s)
               \<and> roundDouble e (page_width p / 2) = Fin (page_width p / 2)
               \<and> roundDouble e (wr / 2) = Fin (wr / 2)
               \<and> roundDouble e (page_width p / 2 - wr / 2) = Fin (page_width p / 2 - wr / 2)
               \<and> roundDouble e (page_height p / 2) = Fin (page_height p / 2)
               \<and> roundDouble e (s / 2) = Fin (s / 2)
               \<and> roundDouble e (page_height p / 2 - s / 2) = Fin (page_height p / 2 - s / 2)
               \<longrightarrow>
                 dt_x (snd (page_drawn p' ! length (page_drawn p)))
                   = Fin (page_width p / 2 - wr / 2)
               \<and> dt_y (snd (page_drawn p' ! length (page_drawn p)))
                   = Fin (page_height p / 2 - s / 2))))
   \<and> (\<forall>w h.
         degrees_throws e (get_prop opts ''rotate'') = None
       \<and> widthOfTextAtSize e mainFont line1 (get_prop opts ''size'') = Inr w
       \<and> ToNumber e (get_prop opts ''size'') = Inr h \<longrightarrow>
         (\<forall>m. drawText_throws e p line1
                 \<lparr>dt_x = js_sub e (js_div e (Fin (page_width p)) (Fin 2)) (js_div e w (Fin 2)),
                  dt_y = js_sub e (js_div e (Fin (page_height p)) (Fin 2)) (js_div e h (Fin 2)),
                  dt_size = get_prop opts ''size'',
                  dt_opacity = get_prop opts ''opacity'',
                  dt_rotate = Degrees (get_prop opts ''rotate''),
                  dt_font = mainFont,
                  dt_color = RGB 0.5 0.5 0.5\<rparr> = Some m \<longrightarrow>
              placeWatermark e mainFont subtitleFont line1 line2 opts p = Inl m)
       \<and> (drawText_throws e p line1
             \<lparr>dt_x = js_sub e (js_div e (Fin (page_width p)) (Fin 2)) (js_div e w (Fin 2)),
              dt_y = js_sub e (js_div e (Fin (page_height p)) (Fin 2)) (js_div e h (Fin 2)),
              dt_size = get_prop opts ''size'',
              dt_opacity = get_prop opts ''opacity'',
              dt_rotate = Degrees (get_prop opts ''rotate''),
              dt_font = mainFont,
              dt_color = RGB 0.5 0.5 0.5\<rparr> = None \<longrightarrow>
            (\<exists>o2. placeWatermark e mainFont subtitleFont line1 line2 opts p
                  = drawText e
                      (p\<lparr>page_drawn := page_drawn p @
                         [(line1,
                           \<lparr>dt_x = js_sub e (js_div e (Fin (page_width p)) (Fin 2))
                                         (js_div e w (Fin 2)),
                            dt_y = js_sub e (js_div e (Fin (page_height p)) (Fin 2))
                                         (js_div e h (Fin 2)),
                            dt_size = get_prop opts ''size'',
                            dt_opacity = get_prop opts ''opacity'',
                            dt_rotate = Degrees (get_prop opts ''rotate''),
                            dt_font = mainFont,
                            dt_color = RGB 0.5 0.5 0.5\<rparr>)]\<rparr>)
                      line2 o2)))"
proof (intro conjI allI impI)
  fix p'
  assume ret: "placeWatermark e mainFont subtitleFont line1 line2 opts p = Inr p'"
  from placeWatermark_Inr [OF ret] obtain rot w h where
    rot: "degrees e (get_prop opts ''rotate'') = Inr rot" and
    w: "widthOfTextAtSize e mainFont line1 (get_prop opts ''size'') = Inr w" and
    h: "ToNumber e (get_prop opts ''size'') = Inr h" and
    p': "p' = p\<lparr>page_drawn := page_drawn p @
               [(line1,
                 \<lparr>dt_x = js_sub e (js_div e (Fin (page_width p)) (Fin 2)) (js_div e w (Fin 2)),
                  dt_y = js_sub e (js_div e (Fin (page_height p)) (Fin 2)) (js_div e h (Fin 2)),
                  dt_size = get_prop opts ''size'',
                  dt_opacity = get_prop opts ''opacity'',
                  dt_rotate = rot,
                  dt_font = mainFont,
                  dt_color = RGB 0.5 0.5 0.5\<rparr>),
                (line2,
                 \<lparr>dt_x = js_add e (js_sub e (js_div e (Fin (page_width p)) (Fin 2)) (js_div e w (Fin 2)))
                          (Fin (- 20)),
                  dt_y = js_add e (js_sub e (js_div e (Fin (page_height p)) (Fin 2)) (js_div e h (Fin 2)))
                          (Fin (- 30)),
                  dt_size = get_prop opts ''sizesubtitle'',
                  dt_opacity = get_prop opts ''opacity'',
                  dt_rotate = rot,
                  dt_font = subtitleFont,
                  dt_color = RGB 0.5 0.5 0.5\<rparr>)]\<rparr>"
    by blast
  have r: "rot = Degrees (get_prop opts ''rotate'')"
    using rot by (rule degrees_Inr)
  have first: "page_drawn p' ! length (page_drawn p)
             = (line1,
                \<lparr>dt_x = js_sub e (js_div e (Fin (page_width p)) (Fin 2)) (js_div e w (Fin 2)),
                 dt_y = js_sub e (js_div e (Fin (page_height p)) (Fin 2)) (js_div e h (Fin 2)),
                 dt_size = get_prop opts ''size'',
                 dt_opacity = get_prop opts ''opacity'',
                 dt_rotate = Degrees (get_prop opts ''rotate''),
                 dt_font = mainFont,
                 dt_color = RGB 0.5 0.5 0.5\<rparr>)"
    by (simp add: p' r nth_append)
  have rounded: "\<forall>wr s cx hw cy hh.
                 w = Fin wr \<and> get_prop opts ''size'' = JNum (Fin s)
               \<and> roundDouble e (page_width p / 2) = Fin cx \<and> roundDouble e (wr / 2) = Fin hw
               \<and> roundDouble e (page_height p / 2) = Fin cy \<and> roundDouble e (s / 2) = Fin hh
               \<longrightarrow>
                 dt_x (snd (page_drawn p' ! length (page_drawn p))) = roundDouble e (cx - hw)
               \<and> dt_y (snd (page_drawn p' ! length (page_drawn p))) = roundDouble e (cy - hh)"
    using h by (auto simp: first js_sub_def)
  have exact: "\<forall>wr s.
                 w = Fin wr \<and> get_prop opts ''size'' = JNum (Fin s)
               \<and> roundDouble e (page_width p / 2) = Fin (page_width p / 2)
               \<and> roundDouble e (wr / 2) = Fin (wr / 2)
               \<and> roundDouble e (page_width p / 2 - wr / 2) = Fin (page_width p / 2 - wr / 2)
               \<and> roundDouble e (page_height p / 2) = Fin (page_height p / 2)
               \<and> roundDouble e (s / 2) = Fin (s / 2)
               \<and> roundDouble e (page_height p / 2 - s / 2) = Fin (page_height p / 2 - s / 2)
               \<longrightarrow>
                 dt_x (snd (page_drawn p' ! length (page_drawn p)))
                   = Fin (page_width p / 2 - wr / 2)
               \<and> dt_y (snd (page_drawn p' ! length (page_drawn p)))
                   = Fin (page_height p / 2 - s / 2)"
    using rounded by metis
  from w h first rounded exact
  show "\<exists>w h.
           widthOfTextAtSize e mainFont line1 (get_prop opts ''size'') = Inr w
         \<and> ToNumber e (get_prop opts ''size'') = Inr h
         \<and> page_drawn p' ! length (page_drawn p)
             = (line1,
                \<lparr>dt_x = js_sub e (js_div e (Fin (page_width p)) (Fin 2)) (js_div e w (Fin 2)),
                 dt_y = js_sub e (js_div e (Fin (page_height p)) (Fin 2)) (js_div e h (Fin 2)),
                 dt_size = get_prop opts ''size'',
                 dt_opacity = get_prop opts ''opacity'',
                 dt_rotate = Degrees (get_prop opts ''rotate''),
                 dt_font = mainFont,
                 dt_color = RGB 0.5 0.5 0.5\<rparr>)
         \<and> (\<forall>wr s cx hw cy hh.
                 w = Fin wr \<and> get_prop opts ''size'' = JNum (Fin s)
               \<and> roundDouble e (page_width p / 2) = Fin cx \<and> roundDouble e (wr / 2) = Fin hw
               \<and> roundDouble e (page_height p / 2) = Fin cy \<and> roundDouble e (s / 2) = Fin hh
               \<longrightarrow>
                 dt_x (snd (page_drawn p' ! length (page_drawn p))) = roundDouble e (cx - hw)
               \<and> dt_y (snd (page_drawn p' ! length (page_drawn p))) = roundDouble e (cy - hh))
         \<and> (\<forall>wr s.
                 w = Fin wr \<and> get_prop opts ''size'' = JNum (Fin s)
               \<and> roundDouble e (page_width p / 2) = Fin (page_width p / 2)
               \<and> roundDouble e (wr / 2) = Fin (wr / 2)
               \<and> roundDouble e (page_width p / 2 - wr / 2) = Fin (page_width p / 2 - wr / 2)
               \<and> roundDouble e (page_height p / 2) = Fin (page_height p / 2)
               \<and> roundDouble e (s / 2) = Fin (s / 2)
               \<and> roundDouble e (page_height p / 2 - s / 2) = Fin (page_height p / 2 - s / 2)
               \<longrightarrow>
                 dt_x (snd (page_drawn p' ! length (page_drawn p)))
                   = Fin (page_width p / 2 - wr / 2)
               \<and> dt_y (snd (page_drawn p' ! length (page_drawn p)))
                   = Fin (page_height p / 2 - s / 2))"
    by blast
next
  fix w h m
  assume a: "degrees_throws e (get_prop opts ''rotate'') = None
       \<and> widthOfTextAtSize e mainFont line1 (get_prop opts ''size'') = Inr w
       \<and> ToNumber e (get_prop opts ''size'') = Inr h"
  assume rej: "drawText_throws e p line1
                 \<lparr>dt_x = js_sub e (js_div e (Fin (page_width p)) (Fin 2)) (js_div e w (Fin 2)),
                  dt_y = js_sub e (js_div e (Fin (page_height p)) (Fin 2)) (js_div e h (Fin 2)),
                  dt_size = get_prop opts ''size'',
                  dt_opacity = get_prop opts ''opacity'',
                  dt_rotate = Degrees (get_prop opts ''rotate''),
                  dt_font = mainFont,
                  dt_color = RGB 0.5 0.5 0.5\<rparr> = Some m"
  from a have d: "degrees_throws e (get_prop opts ''rotate'') = None"
    and w: "widthOfTextAtSize e mainFont line1 (get_prop opts ''size'') = Inr w"
    and h: "ToNumber e (get_prop opts ''size'') = Inr h"
    by blast+
  show "placeWatermark e mainFont subtitleFont line1 line2 opts p = Inl m"
    by (simp only: placeWatermark_calls [OF d w h] drawText_rejected [OF rej] sum.case)
next
  fix w h
  assume a: "degrees_throws e (get_prop opts ''rotate'') = None
       \<and> widthOfTextAtSize e mainFont line1 (get_prop opts ''size'') = Inr w
       \<and> ToNumber e (get_prop opts ''size'') = Inr h"
  assume acc: "drawText_throws e p line1
             \<lparr>dt_x = js_sub e (js_div e (Fin (page_width p)) (Fin 2)) (js_div e w (Fin 2)),
              dt_y = js_sub e (js_div e (Fin (page_height p)) (Fin 2)) (js_div e h (Fin 2)),
              dt_size = get_prop opts ''size'',
              dt_opacity = get_prop opts ''opacity'',
              dt_rotate = Degrees (get_prop opts ''rotate''),
              dt_font = mainFont,
              dt_color = RGB 0.5 0.5 0.5\<rparr> = None"
  from a have d: "degrees_throws e (get_prop opts ''rotate'') = None"
    and w: "widthOfTextAtSize e mainFont line1 (get_prop opts ''size'') = Inr w"
    and h: "ToNumber e (get_prop opts ''size'') = Inr h"
    by blast+
  have "placeWatermark e mainFont subtitleFont line1 line2 opts p
      = drawText e
          (p\<lparr>page_drawn := page_drawn p @
             [(line1,
               \<lparr>dt_x = js_sub e (js_div e (Fin (page_width p)) (Fin 2)) (js_div e w (Fin 2)),
                dt_y = js_sub e (js_div e (Fin (page_height p)) (Fin 2)) (js_div e h (Fin 2)),
                dt_size = get_prop opts ''size'',
                dt_opacity = get_prop opts ''opacity'',
                dt_rotate = Degrees (get_prop opts ''rotate''),
                dt_font = mainFont,
                dt_color = RGB 0.5 0.5 0.5\<rparr>)]\<rparr>)
          line2
          \<lparr>dt_x = js_add e (js_sub e (js_div e (Fin (page_width p)) (Fin 2))
                              (js_div e w (Fin 2))) (Fin (- 20)),
           dt_y = js_add e (js_sub e (js_div e (Fin (page_height p)) (Fin 2))
                              (js_div e h (Fin 2))) (Fin (- 30)),
           dt_size = get_prop opts ''sizesubtitle'',
           dt_opacity = get_prop opts ''opacity'',
           dt_rotate = Degrees (get_prop opts ''rotate''),
           dt_font = subtitleFont,
           dt_color = RGB 0.5 0.5 0.5\<rparr>"
    by (simp only: placeWatermark_calls [OF d w h] drawText_accepted [OF acc] sum.case)
  then show "\<exists>o2. placeWatermark e mainFont subtitleFont line1 line2 opts p
                  = drawText e
                      (p\<lparr>page_drawn := page_drawn p @
                         [(line1,
                           \<lparr>dt_x = js_sub e (js_div e (Fin (page_width p)) (Fin 2))
                                         (js_div e w (Fin 2)),
                            dt_y = js_sub e (js_div e (Fin (page_height p)) (Fin 2))
                                         (js_div e h (Fin 2)),
                            dt_size = get_prop opts ''size'',
                            dt_opacity = get_prop opts ''opacity'',
                            dt_rotate = Degrees (get_prop opts ''rotate''),
                            dt_font = mainFont,
                            dt_color = RGB 0.5 0.5 0.5\<rparr>)]\<rparr>)
                      line2 o2"
    by blast
qed

text \<open>The US Letter page, 612 by 792 points, with the defaults: the sample font measures
  390 points for \<^verbatim>\<open>CONFIDENTIAL\<close> at size 65, the halves 306, 195, 396 and 32.5 and their
  differences are doubles, so line 1 starts at (111, 363.5), and the library accepts the
  call.\<close>

theorem line1_centred_draw_witness:
  "placeWatermark sample_env (PDFFont sample_font_bytes) (PDFFont sample_font_bytes)
     (JStr ''CONFIDENTIAL'') (JStr ''Jane Doe'') (finalWatermarkOptions sample_request)
     letter_page
   = Inr \<lparr>page_width = 612, page_height = 792,
          page_drawn =
            [(JStr ''CONFIDENTIAL'',
              \<lparr>dt_x = Fin 111, dt_y = Fin 363.5, dt_size = JNum (Fin 65),
               dt_opacity = JNum (Fin 0.2), dt_rotate = Degrees (JNum (Fin (- 45))),
               dt_font = PDFFont sample_font_bytes, dt_color = RGB 0.5 0.5 0.5\<rparr>),
             (JStr ''Jane Doe'',
              \<lparr>dt_x = Fin 91, dt_y = Fin 333.5, dt_size = JNum (Fin 40),
               dt_opacity = JNum (Fin 0.2), dt_rotate = Degrees (JNum (Fin (- 45))),
               dt_font = PDFFont sample_font_bytes, dt_color = RGB 0.5 0.5 0.5\<rparr>)]\<rparr>
   \<and> get_prop (finalWatermarkOptions sample_request) ''size'' = JNum (Fin 65)
   \<and> widthOfTextAtSize sample_env (PDFFont sample_font_bytes) (JStr ''CONFIDENTIAL'')
        (get_prop (finalWatermarkOptions sample_request) ''size'') = Inr (Fin 390)
   \<and> ToNumber sample_env (get_prop (finalWatermarkOptions sample_request) ''size'')
       = Inr (Fin 65)
   \<and> roundDouble sample_env (page_width letter_page / 2) = Fin 306
   \<and> roundDouble sample_env (390 / 2) = Fin 195
   \<and> roundDouble sample_env (306 - 195) = Fin 111
   \<and> roundDouble sample_env (page_height letter_page / 2) = Fin 396
   \<and> roundDouble sample_env (65 / 2) = Fin 32.5
   \<and> roundDouble sample_env (396 - 32.5) = Fin 363.5
   \<and> degrees_throws sample_env (get_prop (finalWatermarkOptions sample_request) ''rotate'')
       = None
   \<and> drawText_throws sample_env letter_page (JStr ''CONFIDENTIAL'')
        \<lparr>dt_x = Fin 111, dt_y = Fin 363.5, dt_size = JNum (Fin 65),
         dt_opacity = JNum (Fin 0.2), dt_rotate = Degrees (JNum (Fin (- 45))),
         dt_font = PDFFont sample_font_bytes, dt_color = RGB 0.5 0.5 0.5\<rparr> = None"
proof -
  have opts: "get_prop (finalWatermarkOptions sample_request) ''size'' = JNum (Fin 65)"
    "get_prop (finalWatermarkOptions sample_request) ''rotate'' = JNum (Fin (- 45))"
    by (simp_all add: get_prop_def finalWatermarkOptions_lookup sample_request_def
          defaultWatermarkOptions_def)
  have w: "widthOfTextAtSize sample_env (PDFFont sample_font_bytes) (JStr ''CONFIDENTIAL'')
        (get_prop (finalWatermarkOptions sample_request) ''size'') = Inr (Fin 390)"
    by (simp add: opts sample_env_def)
  have h: "ToNumber sample_env (get_prop (finalWatermarkOptions sample_request) ''size'')
       = Inr (Fin 65)"
    by (simp add: opts)
  have r: "roundDouble sample_env (page_width letter_page / 2) = Fin 306"
    "roundDouble sample_env (390 / 2) = Fin 195"
    "roundDouble sample_env (306 - 195) = Fin 111"
    "roundDouble sample_env (page_height letter_page / 2) = Fin 396"
    "roundDouble sample_env (65 / 2) = Fin 32.5"
    "roundDouble sample_env (396 - 32.5) = Fin 363.5"
    by (simp_all add: sample_env_def letter_page_def)
  have d: "degrees_throws sample_env (get_prop (finalWatermarkOptions sample_request) ''rotate'')
       = None"
    by (simp add: opts sample_env_def)
  have acc: "drawText_throws sample_env letter_page (JStr ''CONFIDENTIAL'')
        \<lparr>dt_x = Fin 111, dt_y = Fin 363.5, dt_size = JNum (Fin 65),
         dt_opacity = JNum (Fin 0.2), dt_rotate = Degrees (JNum (Fin (- 45))),
         dt_font = PDFFont sample_font_bytes, dt_color = RGB 0.5 0.5 0.5\<rparr> = None"
    by (simp add: sample_env_def)
  from line1_centred_draw [of sample_env "PDFFont sample_font_bytes"
        "PDFFont sample_font_bytes" "JStr ''CONFIDENTIAL''" "JStr ''Jane Doe''"
        "finalWatermarkOptions sample_request" letter_page]
    placeWatermark_sample opts(1) w h r d acc
  show ?thesis by blast
qed



section \<open>Numbers in the options\<close>

text \<open>
  C10, as stated, hands every number of \<^verbatim>\<open>watermarkOptions\<close> to both draw calls. The
  handler gives \<^verbatim>\<open>size\<close> to the call for line 1 and \<^verbatim>\<open>sizesubtitle\<close> to the call for
  line 2: a request that sets only \<^verbatim>\<open>size\<close> to 10 draws line 1 at size 10 and line 2 at
  size 40. And the call for line 2 is made only when the call for line 1 returns: with the
  opacity 1.5, which the library rejects as pdf-lib does, the callback throws at line 1 and
  nothing is handed to a second call.
\<close>

theorem size_not_passed_to_line2_counterexample:
  "get_prop (finalWatermarkOptions
       (sample_request\<lparr>watermarkOptions := JObj [(''size'', JNum (Fin 10))]\<rparr>)) ''size''
     = JNum (Fin 10)
   \<and> placeWatermark sample_env (PDFFont sample_font_bytes) (PDFFont sample_font_bytes)
       (JStr ''CONFIDENTIAL'') (JStr ''Jane Doe'')
       (finalWatermarkOptions
          (sample_request\<lparr>watermarkOptions := JObj [(''size'', JNum (Fin 10))]\<rparr>))
       letter_page
     = Inr \<lparr>page_width = 612, page_height = 792,
            page_drawn =
              [(JStr ''CONFIDENTIAL'',
                \<lparr>dt_x = Fin 276, dt_y = Fin 391, dt_size = JNum (Fin 10),
                 dt_opacity = JNum (Fin 0.2), dt_rotate = Degrees (JNum (Fin (- 45))),
                 dt_font = PDFFont sample_font_bytes, dt_color = RGB 0.5 0.5 0.5\<rparr>),
               (JStr ''Jane Doe'',
                \<lparr>dt_x = Fin 256, dt_y = Fin 361, dt_size = JNum (Fin 40),
                 dt_opacity = JNum (Fin 0.2), dt_rotate = Degrees (JNum (Fin (- 45))),
                 dt_font = PDFFont sample_font_bytes, dt_color = RGB 0.5 0.5 0.5\<rparr>)]\<rparr>
   \<and> JNum (Fin 40) \<noteq> JNum (Fin 10)
   \<and> get_prop (finalWatermarkOptions unchecked_request) ''opacity'' = JNum (Fin 1.5)
   \<and> placeWatermark sample_env (PDFFont sample_font_bytes) (PDFFont sample_font_bytes)
       (JStr ''CONFIDENTIAL'') (JStr ''Jane Doe'') (finalWatermarkOptions unchecked_request)
       letter_page
     = Inl ''opacity must be at least 0 and at most 1''"
  by (simp add: placeWatermark_def sample_env_def sample_request_def unchecked_request_def
        letter_page_def finalWatermarkOptions_def spread_def defaultWatermarkOptions_def
        get_prop_def degrees_def drawText_def rgb_def js_sub_def Let_def)

text \<open>
  C10, amended. The handler neither checks nor clamps the numbers of \<^verbatim>\<open>watermarkOptions\<close>:
  any number the caller's object holds for a key, zero and negative numbers included,
  replaces the default and is handed unchanged to the draw calls that take it. As soon as the
  library accepts the angle and measures line 1, \<^verbatim>\<open>drawText\<close> is called for line 1 with the
  \<^verbatim>\<open>size\<close>, the \<^verbatim>\<open>opacity\<close> and \<^verbatim>\<open>degrees(rotate)\<close>; when that call throws, as
  pdf-lib does for an opacity outside [0, 1], the callback throws its message and no second
  call is made; when it returns, \<^verbatim>\<open>drawText\<close> is called for line 2 with the
  \<^verbatim>\<open>sizesubtitle\<close>, the \<^verbatim>\<open>opacity\<close> and \<^verbatim>\<open>degrees(rotate)\<close>. On every page on which the
  callback completes, the two draws hold these numbers.
\<close>

theorem numeric_options_reach_draw_calls:
  assumes "watermarkOptions req = JObj kvs"
  shows "(\<forall>k v. map_of kvs k = Some (JNum v) \<longrightarrow>
            get_prop (finalWatermarkOptions req) k = JNum v)
       \<and> (\<forall>f g l1 l2 p w h.
              degrees_throws e (get_prop (finalWatermarkOptions req) ''rotate'') = None
            \<and> widthOfTextAtSize e f l1 (get_prop (finalWatermarkOptions req) ''size'') = Inr w
            \<and> ToNumber e (get_prop (finalWatermarkOptions req) ''size'') = Inr h \<longrightarrow>
              (\<exists>o1 o2.
                  (\<forall>v. map_of kvs ''size'' = Some (JNum v) \<longrightarrow> dt_size o1 = JNum v)
                \<and> (\<forall>v. map_of kvs ''sizesubtitle'' = Some (JNum v) \<longrightarrow> dt_size o2 = JNum v)
                \<and> (\<forall>v. map_of kvs ''opacity'' = Some (JNum v) \<longrightarrow>
                      dt_opacity o1 = JNum v \<and> dt_opacity o2 = JNum v)
                \<and> (\<forall>v. map_of kvs ''rotate'' = Some (JNum v) \<longrightarrow>
                      dt_rotate o1 = Degrees (JNum v) \<and> dt_rotate o2 = Degrees (JNum v))
                \<and> (\<forall>m. drawText_throws e p l1 o1 = Some m \<longrightarrow>
                      placeWatermark e f g l1 l2 (finalWatermarkOptions req) p = Inl m)
                \<and> (drawText_throws e p l1 o1 = None \<longrightarrow>
                      placeWatermark e f g l1 l2 (finalWatermarkOptions req) p
                        = drawText e (p\<lparr>page_drawn := page_drawn p @ [(l1, o1)]\<rparr>) l2 o2)))
       \<and> (\<forall>f g l1 l2 p p'.
            placeWatermark e f g l1 l2 (finalWatermarkOptions req) p = Inr p' \<longrightarrow>
              (let o1 = snd (page_drawn p' ! length (page_drawn p));
                   o2 = snd (page_drawn p' ! Suc (length (page_drawn p)))
               in (\<forall>v. map_of kvs ''size'' = Some (JNum v) \<longrightarrow> dt_size o1 = JNum v)
                \<and> (\<forall>v. map_of kvs ''sizesubtitle'' = Some (JNum v) \<longrightarrow> dt_size o2 = JNum v)
                \<and> (\<forall>v. map_of kvs ''opacity'' = Some (JNum v) \<longrightarrow>
                      dt_opacity o1 = JNum v \<and> dt_opacity o2 = JNum v)
                \<and> (\<forall>v. map_of kvs ''rotate'' = Some (JNum v) \<longrightarrow>
                      dt_rotate o1 = Degrees (JNum v) \<and> dt_rotate o2 = Degrees (JNum v))))"
proof -
  have over: "\<And>k v. map_of kvs k = Some v \<Longrightarrow> get_prop (finalWatermarkOptions req) k = v"
    using assms by (simp add: get_prop_def finalWatermarkOptions_lookup)
  have first: "\<forall>k v. map_of kvs k = Some (JNum v) \<longrightarrow>
            get_prop (finalWatermarkOptions req) k = JNum v"
    using over by blast
  have made: "\<exists>o1 o2.
                  (\<forall>v. map_of kvs ''size'' = Some (JNum v) \<longrightarrow> dt_size o1 = JNum v)
                \<and> (\<forall>v. map_of kvs ''sizesubtitle'' = Some (JNum v) \<longrightarrow> dt_size o2 = JNum v)
                \<and> (\<forall>v. map_of kvs ''opacity'' = Some (JNum v) \<longrightarrow>
                      dt_opacity o1 = JNum v \<and> dt_opacity o2 = JNum v)
                \<and> (\<forall>v. map_of kvs ''rotate'' = Some (JNum v) \<longrightarrow>
                      dt_rotate o1 = Degrees (JNum v) \<and> dt_rotate o2 = Degrees (JNum v))
                \<and> (\<forall>m. drawText_throws e p l1 o1 = Some m \<longrightarrow>
                      placeWatermark e f g l1 l2 (finalWatermarkOptions req) p = Inl m)
                \<and> (drawText_throws e p l1 o1 = None \<longrightarrow>
                      placeWatermark e f g l1 l2 (finalWatermarkOptions req) p
                        = drawText e (p\<lparr>page_drawn := page_drawn p @ [(l1, o1)]\<rparr>) l2 o2)"
    if d: "degrees_throws e (get_prop (finalWatermarkOptions req) ''rotate'') = None"
      and w: "widthOfTextAtSize e f l1 (get_prop (finalWatermarkOptions req) ''size'') = Inr w"
      and h: "ToNumber e (get_prop (finalWatermarkOptions req) ''size'') = Inr h"
    for f g l1 l2 p w h
  proof -
    let ?F = "finalWatermarkOptions req"
    let ?o1 = "\<lparr>dt_x = js_sub e (js_div e (Fin (page_width p)) (Fin 2)) (js_div e w (Fin 2)),
                dt_y = js_sub e (js_div e (Fin (page_height p)) (Fin 2)) (js_div e h (Fin 2)),
                dt_size = get_prop ?F ''size'',
                dt_opacity = get_prop ?F ''opacity'',
                dt_rotate = Degrees (get_prop ?F ''rotate''),
                dt_font = f,
                dt_color = RGB 0.5 0.5 0.5\<rparr>"
    let ?o2 = "\<lparr>dt_x = js_add e (js_sub e (js_div e (Fin (page_width p)) (Fin 2))
                                   (js_div e w (Fin 2))) (Fin (- 20)),
                dt_y = js_add e (js_sub e (js_div e (Fin (page_height p)) (Fin 2))
                                   (js_div e h (Fin 2))) (Fin (- 30)),
                dt_size = get_prop ?F ''sizesubtitle'',
                dt_opacity = get_prop ?F ''opacity'',
                dt_rotate = Degrees (get_prop ?F ''rotate''),
                dt_font = g,
                dt_color = RGB 0.5 0.5 0.5\<rparr>"
    have calls: "placeWatermark e f g l1 l2 ?F p
        = (case drawText e p l1 ?o1 of Inl m \<Rightarrow> Inl m | Inr p1 \<Rightarrow> drawText e p1 l2 ?o2)"
      by (rule placeWatermark_calls [OF d w h])
    have rej: "\<forall>m. drawText_throws e p l1 ?o1 = Some m \<longrightarrow>
        placeWatermark e f g l1 l2 ?F p = Inl m"
    proof (intro allI impI)
      fix m
      assume r: "drawText_throws e p l1 ?o1 = Some m"
      show "placeWatermark e f g l1 l2 ?F p = Inl m"
        by (simp only: calls drawText_rejected [OF r] sum.case)
    qed
    have acc: "drawText_throws e p l1 ?o1 = None \<longrightarrow>
        placeWatermark e f g l1 l2 ?F p
          = drawText e (p\<lparr>page_drawn := page_drawn p @ [(l1, ?o1)]\<rparr>) l2 ?o2"
    proof
      assume a: "drawText_throws e p l1 ?o1 = None"
      show "placeWatermark e f g l1 l2 ?F p
          = drawText e (p\<lparr>page_drawn := page_drawn p @ [(l1, ?o1)]\<rparr>) l2 ?o2"
        by (simp only: calls drawText_accepted [OF a] sum.case)
    qed
    have fields:
      "\<forall>v. map_of kvs ''size'' = Some (JNum v) \<longrightarrow> dt_size ?o1 = JNum v"
      "\<forall>v. map_of kvs ''sizesubtitle'' = Some (JNum v) \<longrightarrow> dt_size ?o2 = JNum v"
      "\<forall>v. map_of kvs ''opacity'' = Some (JNum v) \<longrightarrow>
          dt_opacity ?o1 = JNum v \<and> dt_opacity ?o2 = JNum v"
      "\<forall>v. map_of kvs ''rotate'' = Some (JNum v) \<longrightarrow>
          dt_rotate ?o1 = Degrees (JNum v) \<and> dt_rotate ?o2 = Degrees (JNum v)"
      using over by simp_all
    from fields rej acc show ?thesis
      by (intro exI [of _ ?o1] exI [of _ ?o2]) blast
  qed
  have calls: "\<And>f g l1 l2 p p'.
      placeWatermark e f g l1 l2 (finalWatermarkOptions req) p = Inr p' \<Longrightarrow>
        dt_size (snd (page_drawn p' ! length (page_drawn p)))
          = get_prop (finalWatermarkOptions req) ''size''
      \<and> dt_size (snd (page_drawn p' ! Suc (length (page_drawn p))))
          = get_prop (finalWatermarkOptions req) ''sizesubtitle''
      \<and> dt_opacity (snd (page_drawn p' ! length (page_drawn p)))
          = get_prop (finalWatermarkOptions req) ''opacity''
      \<and> dt_opacity (snd (page_drawn p' ! Suc (length (page_drawn p))))
          = get_prop (finalWatermarkOptions req) ''opacity''
      \<and> dt_rotate (snd (page_drawn p' ! length (page_drawn p)))
          = Degrees (get_prop (finalWatermarkOptions req) ''rotate'')
      \<and> dt_rotate (snd (page_drawn p' ! Suc (length (page_drawn p))))
          = Degrees (get_prop (finalWatermarkOptions req) ''rotate'')"
    by (auto dest!: placeWatermark_Inr degrees_Inr simp: nth_append)
  have drawn: "\<forall>f g l1 l2 p p'.
            placeWatermark e f g l1 l2 (finalWatermarkOptions req) p = Inr p' \<longrightarrow>
              (let o1 = snd (page_drawn p' ! length (page_drawn p));
                   o2 = snd (page_drawn p' ! Suc (length (page_drawn p)))
               in (\<forall>v. map_of kvs ''size'' = Some (JNum v) \<longrightarrow> dt_size o1 = JNum v)
                \<and> (\<forall>v. map_of kvs ''sizesubtitle'' = Some (JNum v) \<longrightarrow> dt_size o2 = JNum v)
                \<and> (\<forall>v. map_of kvs ''opacity'' = Some (JNum v) \<longrightarrow>
                      dt_opacity o1 = JNum v \<and> dt_opacity o2 = JNum v)
                \<and> (\<forall>v. map_of kvs ''rotate'' = Some (JNum v) \<longrightarrow>
                      dt_rotate o1 = Degrees (JNum v) \<and> dt_rotate o2 = Degrees (JNum v)))"
    unfolding Let_def
  proof (intro conjI allI impI)
    fix f g l1 l2 p p' v
    assume pw: "placeWatermark e f g l1 l2 (finalWatermarkOptions req) p = Inr p'"
       and v: "map_of kvs ''size'' = Some (JNum v)"
    from calls [OF pw] over [OF v]
    show "dt_size (snd (page_drawn p' ! length (page_drawn p))) = JNum v" by simp
  next
    fix f g l1 l2 p p' v
    assume pw: "placeWatermark e f g l1 l2 (finalWatermarkOptions req) p = Inr p'"
       and v: "map_of kvs ''sizesubtitle'' = Some (JNum v)"
    from calls [OF pw] over [OF v]
    show "dt_size (snd (page_drawn p' ! Suc (length (page_drawn p)))) = JNum v" by simp
  next
    fix f g l1 l2 p p' v
    assume pw: "placeWatermark e f g l1 l2 (finalWatermarkOptions req) p = Inr p'"
       and v: "map_of kvs ''opacity'' = Some (JNum v)"
    from calls [OF pw] over [OF v]
    show "dt_opacity (snd (page_drawn p' ! length (page_drawn p))) = JNum v" by simp
    from calls [OF pw] over [OF v]
    show "dt_opacity (snd (page_drawn p' ! Suc (length (page_drawn p)))) = JNum v" by simp
  next
    fix f g l1 l2 p p' v
    assume pw: "placeWatermark e f g l1 l2 (finalWatermarkOptions req) p = Inr p'"
       and v: "map_of kvs ''rotate'' = Some (JNum v)"
    from calls [OF pw] over [OF v]
    show "dt_rotate (snd (page_drawn p' ! length (page_drawn p))) = Degrees (JNum v)" by simp
    from calls [OF pw] over [OF v]
    show "dt_rotate (snd (page_drawn p' ! Suc (length (page_drawn p)))) = Degrees (JNum v)"
      by simp
  qed
  show ?thesis
  proof (intro conjI)
    show "\<forall>k v. map_of kvs k = Some (JNum v) \<longrightarrow>
            get_prop (finalWatermarkOptions req) k = JNum v"
      by (rule first)
    show "\<forall>f g l1 l2 p w h.
              degrees_throws e (get_prop (finalWatermarkOptions req) ''rotate'') = None
            \<and> widthOfTextAtSize e f l1 (get_prop (finalWatermarkOptions req) ''size'') = Inr w
            \<and> ToNumber e (get_prop (finalWatermarkOptions req) ''size'') = Inr h \<longrightarrow>
              (\<exists>o1 o2.
                  (\<forall>v. map_of kvs ''size'' = Some (JNum v) \<longrightarrow> dt_size o1 = JNum v)
                \<and> (\<forall>v. map_of kvs ''sizesubtitle'' = Some (JNum v) \<longrightarrow> dt_size o2 = JNum v)
                \<and> (\<forall>v. map_of kvs ''opacity'' = Some (JNum v) \<longrightarrow>
                      dt_opacity o1 = JNum v \<and> dt_opacity o2 = JNum v)
                \<and> (\<forall>v. map_of kvs ''rotate'' = Some (JNum v) \<longrightarrow>
                      dt_rotate o1 = Degrees (JNum v) \<and> dt_rotate o2 = Degrees (JNum v))
                \<and> (\<forall>m. drawText_throws e p l1 o1 = Some m \<longrightarrow>
                      placeWatermark e f g l1 l2 (finalWatermarkOptions req) p = Inl m)
                \<and> (drawText_throws e p l1 o1 = None \<longrightarrow>
                      placeWatermark e f g l1 l2 (finalWatermarkOptions req) p
                        = drawText e (p\<lparr>page_drawn := page_drawn p @ [(l1, o1)]\<rparr>) l2 o2))"
    proof (intro allI impI)
      fix f g l1 l2 p w h
      assume a: "degrees_throws e (get_prop (finalWatermarkOptions req) ''rotate'') = None
            \<and> widthOfTextAtSize e f l1 (get_prop (finalWatermarkOptions req) ''size'') = Inr w
            \<and> ToNumber e (get_prop (finalWatermarkOptions req) ''size'') = Inr h"
      then have d: "degrees_throws e (get_prop (finalWatermarkOptions req) ''rotate'') = None"
        and w: "widthOfTextAtSize e f l1 (get_prop (finalWatermarkOptions req) ''size'') = Inr w"
        and h: "ToNumber e (get_prop (finalWatermarkOptions req) ''size'') = Inr h"
        by blast+
      show "\<exists>o1 o2.
                  (\<forall>v. map_of kvs ''size'' = Some (JNum v) \<longrightarrow> dt_size o1 = JNum v)
                \<and> (\<forall>v. map_of kvs ''sizesubtitle'' = Some (JNum v) \<longrightarrow> dt_size o2 = JNum v)
                \<and> (\<forall>v. map_of kvs ''opacity'' = Some (JNum v) \<longrightarrow>
                      dt_opacity o1 = JNum v \<and> dt_opacity o2 = JNum v)
                \<and> (\<forall>v. map_of kvs ''rotate'' = Some (JNum v) \<longrightarrow>
                      dt_rotate o1 = Degrees (JNum v) \<and> dt_rotate o2 = Degrees (JNum v))
                \<and> (\<forall>m. drawText_throws e p l1 o1 = Some m \<longrightarrow>
                      placeWatermark e f g l1 l2 (finalWatermarkOptions req) p = Inl m)
                \<and> (drawText_throws e p l1 o1 = None \<longrightarrow>
                      placeWatermark e f g l1 l2 (finalWatermarkOptions req) p
                        = drawText e (p\<lparr>page_drawn := page_drawn p @ [(l1, o1)]\<rparr>) l2 o2)"
        by (rule made [OF d w h])
    qed
    show "\<forall>f g l1 l2 p p'.
            placeWatermark e f g l1 l2 (finalWatermarkOptions req) p = Inr p' \<longrightarrow>
              (let o1 = snd (page_drawn p' ! length (page_drawn p));
                   o2 = snd (page_drawn p' ! Suc (length (page_drawn p)))
               in (\<forall>v. map_of kvs ''size'' = Some (JNum v) \<longrightarrow> dt_size o1 = JNum v)
                \<and> (\<forall>v. map_of kvs ''sizesubtitle'' = Some (JNum v) \<longrightarrow> dt_size o2 = JNum v)
                \<and> (\<forall>v. map_of kvs ''opacity'' = Some (JNum v) \<longrightarrow>
                      dt_opacity o1 = JNum v \<and> dt_opacity o2 = JNum v)
                \<and> (\<forall>v. map_of kvs ''rotate'' = Some (JNum v) \<longrightarrow>
                      dt_rotate o1 = Degrees (JNum v) \<and> dt_rotate o2 = Degrees (JNum v)))"
      by (rule drawn)
  qed
qed

text \<open>The request with the size 0, the opacity 0, the rotation -400 and the subtitle size
  -5, which the library accepts, and the same request with the opacity 1.5, which it rejects
  at line 1.\<close>

theorem numeric_options_reach_draw_calls_witness:
  "watermarkOptions falsy_request
   = JObj [(''size'', JNum (Fin 0)), (''opacity'', JNum (Fin 0)),
           (''rotate'', JNum (Fin (- 400))), (''sizesubtitle'', JNum (Fin (- 5)))]
   \<and> get_prop (finalWatermarkOptions falsy_request) ''opacity'' = JNum (Fin 0)
   \<and> placeWatermark sample_env (PDFFont sample_font_bytes) (PDFFont sample_font_bytes)
       (JStr ''CONFIDENTIAL'') (JStr ''Jane Doe'') (finalWatermarkOptions falsy_request)
       letter_page
     = Inr \<lparr>page_width = 612, page_height = 792,
            page_drawn =
              [(JStr ''CONFIDENTIAL'',
                \<lparr>dt_x = Fin 306, dt_y = Fin 396, dt_size = JNum (Fin 0),
                 dt_opacity = JNum (Fin 0), dt_rotate = Degrees (JNum (Fin (- 400))),
                 dt_font = PDFFont sample_font_bytes, dt_color = RGB 0.5 0.5 0.5\<rparr>),
               (JStr ''Jane Doe'',
                \<lparr>dt_x = Fin 286, dt_y = Fin 366, dt_size = JNum (Fin (- 5)),
                 dt_opacity = JNum (Fin 0), dt_rotate = Degrees (JNum (Fin (- 400))),
                 dt_font = PDFFont sample_font_bytes, dt_color = RGB 0.5 0.5 0.5\<rparr>)]\<rparr>
   \<and> watermarkOptions unchecked_request
     = JObj [(''size'', JNum (Fin 0)), (''opacity'', JNum (Fin 1.5)),
             (''rotate'', JNum (Fin (- 400))), (''sizesubtitle'', JNum (Fin (- 5)))]
   \<and> degrees_throws sample_env (get_prop (finalWatermarkOptions unchecked_request) ''rotate'')
       = None
   \<and> widthOfTextAtSize sample_env (PDFFont sample_font_bytes) (JStr ''CONFIDENTIAL'')
        (get_prop (finalWatermarkOptions unchecked_request) ''size'') = Inr (Fin 0)
   \<and> ToNumber sample_env (get_prop (finalWatermarkOptions unchecked_request) ''size'')
       = Inr (Fin 0)
   \<and> drawText_throws sample_env letter_page (JStr ''CONFIDENTIAL'')
        \<lparr>dt_x = Fin 306, dt_y = Fin 396, dt_size = JNum (Fin 0),
         dt_opacity = JNum (Fin 1.5), dt_rotate = Degrees (JNum (Fin (- 400))),
         dt_font = PDFFont sample_font_bytes, dt_color = RGB 0.5 0.5 0.5\<rparr>
       = Some ''opacity must be at least 0 and at most 1''
   \<and> placeWatermark sample_env (PDFFont sample_font_bytes) (PDFFont sample_font_bytes)
       (JStr ''CONFIDENTIAL'') (JStr ''Jane Doe'') (finalWatermarkOptions unchecked_request)
       letter_page
     = Inl ''opacity must be at least 0 and at most 1''"
proof -
  have o1: "watermarkOptions falsy_request
     = JObj [(''size'', JNum (Fin 0)), (''opacity'', JNum (Fin 0)),
             (''rotate'', JNum (Fin (- 400))), (''sizesubtitle'', JNum (Fin (- 5)))]"
    by (simp add: falsy_request_def)
  have o2: "watermarkOptions unchecked_request
     = JObj [(''size'', JNum (Fin 0)), (''opacity'', JNum (Fin 1.5)),
             (''rotate'', JNum (Fin (- 400))), (''sizesubtitle'', JNum (Fin (- 5)))]"
    by (simp add: unchecked_request_def)
  have zero: "get_prop (finalWatermarkOptions falsy_request) ''opacity'' = JNum (Fin 0)"
    using numeric_options_reach_draw_calls [OF o1, of sample_env] by simp
  have given: "get_prop (finalWatermarkOptions unchecked_request) ''rotate'' = JNum (Fin (- 400))"
    "get_prop (finalWatermarkOptions unchecked_request) ''size'' = JNum (Fin 0)"
    using numeric_options_reach_draw_calls [OF o2, of sample_env] by simp_all
  have d: "degrees_throws sample_env
      (get_prop (finalWatermarkOptions unchecked_request) ''rotate'') = None"
    by (simp add: given sample_env_def)
  have w: "widthOfTextAtSize sample_env (PDFFont sample_font_bytes) (JStr ''CONFIDENTIAL'')
        (get_prop (finalWatermarkOptions unchecked_request) ''size'') = Inr (Fin 0)"
    by (simp add: given sample_env_def)
  have h: "ToNumber sample_env (get_prop (finalWatermarkOptions unchecked_request) ''size'')
       = Inr (Fin 0)"
    by (simp add: given)
  have rej: "drawText_throws sample_env letter_page (JStr ''CONFIDENTIAL'')
        \<lparr>dt_x = Fin 306, dt_y = Fin 396, dt_size = JNum (Fin 0),
         dt_opacity = JNum (Fin 1.5), dt_rotate = Degrees (JNum (Fin (- 400))),
         dt_font = PDFFont sample_font_bytes, dt_color = RGB 0.5 0.5 0.5\<rparr>
       = Some ''opacity must be at least 0 and at most 1''"
    by (simp add: sample_env_def)
  from o1 zero placeWatermark_falsy o2 d w h rej placeWatermark_rejected
  show ?thesis by blast
qed

section \<open>The font loader and the missing document\<close>

text \<open>
  C7. The loader is lazy and retries. While the flag is not set, a request reads the font
  file: a successful read stores the bytes and sets the flag, whatever becomes of the
  request, and from then on a request leaves the two variables alone and does not depend on
  the file system at all. A failed read leaves the variables as they were, so the flag stays
  unset, answers this request with status 500 and the message of the loader, and the next
  request reads the file again: when that read succeeds the font is loaded.
\<close>

theorem font_loader_lazy_retry:
  "(\<forall>b. \<not> sarabunFontLoaded st \<and> readFile e fontPath = Inr b \<longrightarrow>
         loadSarabunFont e st
           = (Inr (), st\<lparr>sarabunFontBytes := Some b, sarabunFontLoaded := True\<rparr>)
       \<and> snd (addWatermark e st req)
           = st\<lparr>sarabunFontBytes := Some b, sarabunFontLoaded := True\<rparr>)
   \<and> (sarabunFontLoaded st \<longrightarrow>
         fontGuard e st = (Inr (), st)
       \<and> snd (addWatermark e st req) = st
       \<and> (\<forall>r. addWatermark (e\<lparr>readFile := r\<rparr>) st req = addWatermark e st req))
   \<and> (\<forall>m. \<not> sarabunFontLoaded st \<and> readFile e fontPath = Inl m \<longrightarrow>
         addWatermark e st req
           = (\<lparr>status = 500, body = ErrorBody (''Failed to load Sarabun font: '' @ m)\<rparr>, st)
       \<and> \<not> sarabunFontLoaded (snd (addWatermark e st req)))
   \<and> (\<forall>m b e2 req2.
         \<not> sarabunFontLoaded st \<and> readFile e fontPath = Inl m \<and> readFile e2 fontPath = Inr b \<longrightarrow>
           snd (addWatermark e2 (snd (addWatermark e st req)) req2)
             = st\<lparr>sarabunFontBytes := Some b, sarabunFontLoaded := True\<rparr>)"
proof -
  have ok: "\<And>b. \<not> sarabunFontLoaded st \<Longrightarrow> readFile e fontPath = Inr b \<Longrightarrow>
         loadSarabunFont e st
           = (Inr (), st\<lparr>sarabunFontBytes := Some b, sarabunFontLoaded := True\<rparr>)
       \<and> snd (addWatermark e st req)
           = st\<lparr>sarabunFontBytes := Some b, sarabunFontLoaded := True\<rparr>"
    by (simp add: snd_addWatermark fontGuard_read) (simp add: loadSarabunFont_def)
  have warm: "sarabunFontLoaded st \<Longrightarrow>
         fontGuard e st = (Inr (), st)
       \<and> snd (addWatermark e st req) = st
       \<and> (\<forall>r. addWatermark (e\<lparr>readFile := r\<rparr>) st req = addWatermark e st req)"
    by (simp add: snd_addWatermark fontGuard_loaded addWatermark_loaded_readFile)
  have failed: "\<And>m. \<not> sarabunFontLoaded st \<Longrightarrow> readFile e fontPath = Inl m \<Longrightarrow>
         addWatermark e st req
           = (\<lparr>status = 500, body = ErrorBody (''Failed to load Sarabun font: '' @ m)\<rparr>, st)
       \<and> \<not> sarabunFontLoaded (snd (addWatermark e st req))"
    by (simp add: addWatermark_guard_failed [OF fontGuard_failed])
  have retry: "\<And>m b e2 req2.
         \<not> sarabunFontLoaded st \<Longrightarrow> readFile e fontPath = Inl m \<Longrightarrow>
         readFile e2 fontPath = Inr b \<Longrightarrow>
           snd (addWatermark e2 (snd (addWatermark e st req)) req2)
             = st\<lparr>sarabunFontBytes := Some b, sarabunFontLoaded := True\<rparr>"
    by (simp add: snd_addWatermark fontGuard_failed fontGuard_read)
  from ok warm failed retry show ?thesis by blast
qed

text \<open>A cold start without the font file, the same request again once the file is there,
  and a third request when the file is gone again.\<close>

theorem font_loader_lazy_retry_witness:
  "\<not> sarabunFontLoaded initial_state
   \<and> readFile no_font_env fontPath = Inl ''ENOENT: no such file or directory''
   \<and> readFile sample_env fontPath = Inr sample_font_bytes
   \<and> addWatermark no_font_env initial_state sample_request
       = (\<lparr>status = 500,
           body = ErrorBody
             ''Failed to load Sarabun font: ENOENT: no such file or directory''\<rparr>,
          initial_state)
   \<and> snd (addWatermark sample_env (snd (addWatermark no_font_env initial_state sample_request))
            sample_request)
       = loaded_state
   \<and> sarabunFontLoaded loaded_state
   \<and> snd (addWatermark no_font_env loaded_state sample_request) = loaded_state"
proof -
  have cold: "\<not> sarabunFontLoaded initial_state"
    by (simp add: initial_state_def)
  have missing: "readFile no_font_env fontPath = Inl ''ENOENT: no such file or directory''"
    by (simp add: no_font_env_def)
  have there: "readFile sample_env fontPath = Inr sample_font_bytes"
    by (simp add: sample_env_def fontPath_def)
  have upd: "initial_state\<lparr>sarabunFontBytes := Some sample_font_bytes, sarabunFontLoaded := True\<rparr>
      = loaded_state"
    by (simp add: initial_state_def loaded_state_def)
  have warm: "sarabunFontLoaded loaded_state"
    by (simp add: loaded_state_def)
  have failed: "addWatermark no_font_env initial_state sample_request
       = (\<lparr>status = 500,
           body = ErrorBody
             (''Failed to load Sarabun font: '' @ ''ENOENT: no such file or directory'')\<rparr>,
          initial_state)"
    using font_loader_lazy_retry [of initial_state no_font_env sample_request] cold missing
    by blast
  have retry: "snd (addWatermark sample_env
                 (snd (addWatermark no_font_env initial_state sample_request)) sample_request)
       = initial_state\<lparr>sarabunFontBytes := Some sample_font_bytes, sarabunFontLoaded := True\<rparr>"
    using font_loader_lazy_retry [of initial_state no_font_env sample_request]
      cold missing there
    by blast
  have kept: "snd (addWatermark no_font_env loaded_state sample_request) = loaded_state"
    using font_loader_lazy_retry [of loaded_state no_font_env sample_request] warm
    by blast
  show ?thesis
    using cold missing there failed retry kept warm by (simp add: upd)
qed

text \<open>
  C5, as stated, answers 400 to a request without \<^verbatim>\<open>pdfBase64\<close> whatever the state of the
  font cache. The guard for the font comes first in the handler: with the font not loaded
  and the file missing, the same request is answered 500.
\<close>

theorem missing_pdf_cold_font_counterexample:
  "pdfBase64 (sample_request\<lparr>pdfBase64 := JUndefined\<rparr>) = JUndefined
   \<and> addWatermark no_font_env initial_state (sample_request\<lparr>pdfBase64 := JUndefined\<rparr>)
       = (\<lparr>status = 500,
           body = ErrorBody
             ''Failed to load Sarabun font: ENOENT: no such file or directory''\<rparr>,
          initial_state)
   \<and> status (fst (addWatermark no_font_env initial_state
                    (sample_request\<lparr>pdfBase64 := JUndefined\<rparr>))) \<noteq> 400"
  by (simp add: addWatermark_def fontGuard_def loadSarabunFont_def no_font_env_def
        initial_state_def)

text \<open>
  C5, amended. For every request without \<^verbatim>\<open>pdfBase64\<close>, whatever its other fields, once
  the font is available (it was loaded before, or it loads on this request) the handler
  answers 400 with the error \<^verbatim>\<open>PDF data (pdfBase64) is required.\<close>, returns no document and
  does nothing else; with the font not loaded and the read failing it answers 500 with the
  message of the loader, before it looks at \<^verbatim>\<open>pdfBase64\<close>.
\<close>

theorem missing_pdf_after_font_guard:
  assumes "pdfBase64 req = JUndefined"
  shows "(sarabunFontLoaded st \<longrightarrow>
            addWatermark e st req
              = (\<lparr>status = 400, body = ErrorBody ''PDF data (pdfBase64) is required.''\<rparr>, st))
       \<and> (\<forall>b. \<not> sarabunFontLoaded st \<and> readFile e fontPath = Inr b \<longrightarrow>
            addWatermark e st req
              = (\<lparr>status = 400, body = ErrorBody ''PDF data (pdfBase64) is required.''\<rparr>,
                 st\<lparr>sarabunFontBytes := Some b, sarabunFontLoaded := True\<rparr>))
       \<and> (\<forall>m. \<not> sarabunFontLoaded st \<and> readFile e fontPath = Inl m \<longrightarrow>
            addWatermark e st req
              = (\<lparr>status = 500, body = ErrorBody (''Failed to load Sarabun font: '' @ m)\<rparr>,
                 st))"
proof -
  have falsy: "\<not> truthy (pdfBase64 req)"
    using assms by simp
  have warm: "sarabunFontLoaded st \<Longrightarrow>
            addWatermark e st req
              = (\<lparr>status = 400, body = ErrorBody ''PDF data (pdfBase64) is required.''\<rparr>, st)"
    by (rule addWatermark_missing_pdf [OF fontGuard_loaded falsy])
  have cold: "\<And>b. \<not> sarabunFontLoaded st \<Longrightarrow> readFile e fontPath = Inr b \<Longrightarrow>
            addWatermark e st req
              = (\<lparr>status = 400, body = ErrorBody ''PDF data (pdfBase64) is required.''\<rparr>,
                 st\<lparr>sarabunFontBytes := Some b, sarabunFontLoaded := True\<rparr>)"
    by (rule addWatermark_missing_pdf [OF fontGuard_read falsy])
  have failed: "\<And>m. \<not> sarabunFontLoaded st \<Longrightarrow> readFile e fontPath = Inl m \<Longrightarrow>
            addWatermark e st req
              = (\<lparr>status = 500, body = ErrorBody (''Failed to load Sarabun font: '' @ m)\<rparr>,
                 st)"
    by (rule addWatermark_guard_failed [OF fontGuard_failed])
  from warm cold failed show ?thesis by blast
qed

text \<open>The request with names, a first line and options but no document, on a cold start
  with the font file in place.\<close>

theorem missing_pdf_after_font_guard_witness:
  "pdfBase64 (unchecked_request\<lparr>pdfBase64 := JUndefined, watermarkLine1 := JStr ''DRAFT''\<rparr>)
     = JUndefined
   \<and> \<not> sarabunFontLoaded initial_state
   \<and> readFile sample_env fontPath = Inr sample_font_bytes
   \<and> addWatermark sample_env initial_state
        (unchecked_request\<lparr>pdfBase64 := JUndefined, watermarkLine1 := JStr ''DRAFT''\<rparr>)
       = (\<lparr>status = 400, body = ErrorBody ''PDF data (pdfBase64) is required.''\<rparr>,
          initial_state\<lparr>sarabunFontBytes := Some sample_font_bytes, sarabunFontLoaded := True\<rparr>)"
proof -
  have absent:
    "pdfBase64 (unchecked_request\<lparr>pdfBase64 := JUndefined, watermarkLine1 := JStr ''DRAFT''\<rparr>)
       = JUndefined"
    by simp
  have cold: "\<not> sarabunFontLoaded initial_state"
    by (simp add: initial_state_def)
  have there: "readFile sample_env fontPath = Inr sample_font_bytes"
    by (simp add: sample_env_def fontPath_def)
  from missing_pdf_after_font_guard [OF absent, of initial_state sample_env] absent cold there
  show ?thesis by blast
qed

section \<open>The whole request\<close>

text \<open>
  C6. A response with status 200 carries the base64 text of the saved document, and that
  document is the loaded one with as many pages, in the same order: page \<open>i\<close> of the result
  is page \<open>i\<close> of the input after one run of the callback, which leaves its size alone and
  adds exactly two draws, line 1 and then line 2, after what the page held. Conversely,
  when the font is available, \<^verbatim>\<open>pdfBase64\<close> is there and no collaborator throws, the
  handler does answer 200.
\<close>

theorem page_count_preserved:
  "(\<forall>out st1.
      addWatermark e st req = (\<lparr>status = 200, body = SuccessBody out\<rparr>, st1) \<longrightarrow>
        (\<exists>bs d f l2 pages' saved.
            bufferFrom e (pdfBase64 req) = Inr bs
          \<and> PDFDocument_load e bs = Inr d
          \<and> embedFont e (d\<lparr>doc_fontkit := True\<rparr>) (sarabunFontBytes st1) = Inr f
          \<and> finalWatermarkLine2 e req = Inr l2
          \<and> length pages' = length (doc_pages d)
          \<and> (\<forall>i<length (doc_pages d).
                 placeWatermark e f f (finalWatermarkLine1 req) (JStr l2)
                   (finalWatermarkOptions req) (doc_pages d ! i) = Inr (pages' ! i)
               \<and> page_width (pages' ! i) = page_width (doc_pages d ! i)
               \<and> page_height (pages' ! i) = page_height (doc_pages d ! i)
               \<and> (\<exists>o1 o2. page_drawn (pages' ! i)
                     = page_drawn (doc_pages d ! i)
                         @ [(finalWatermarkLine1 req, o1), (JStr l2, o2)]))
          \<and> save e (d\<lparr>doc_fontkit := True, doc_fonts := doc_fonts d @ [f],
                        doc_pages := pages'\<rparr>) = Inr saved
          \<and> out = toBase64 e saved))
   \<and> (\<forall>st1 bs d f l2.
         fontGuard e st = (Inr (), st1) \<and> truthy (pdfBase64 req)
       \<and> bufferFrom e (pdfBase64 req) = Inr bs
       \<and> PDFDocument_load e bs = Inr d
       \<and> embedFont e (d\<lparr>doc_fontkit := True\<rparr>) (sarabunFontBytes st1) = Inr f
       \<and> finalWatermarkLine2 e req = Inr l2
       \<and> (\<forall>p\<in>set (doc_pages d).
              \<exists>q. placeWatermark e f f (finalWatermarkLine1 req) (JStr l2)
                     (finalWatermarkOptions req) p = Inr q)
       \<and> (\<forall>d'. \<exists>saved. save e d' = Inr saved) \<longrightarrow>
         (\<exists>out. addWatermark e st req = (\<lparr>status = 200, body = SuccessBody out\<rparr>, st1)))"
proof (intro conjI allI impI)
  fix out st1
  assume ok: "addWatermark e st req = (\<lparr>status = 200, body = SuccessBody out\<rparr>, st1)"
  from addWatermark_200 [OF ok]
  have tb: "tryBlock e (sarabunFontBytes st1) req = Inr out"
    by blast
  from tryBlock_Inr [OF tb] obtain d' saved where
    d': "watermarkedDoc e (sarabunFontBytes st1) req = Inr d'" and
    saved: "save e d' = Inr saved" and out: "out = toBase64 e saved"
    by blast
  from watermarkedDoc_Inr [OF d'] obtain bs d f l2 pages' where
    bs: "bufferFrom e (pdfBase64 req) = Inr bs" and
    d: "PDFDocument_load e bs = Inr d" and
    f: "embedFont e (d\<lparr>doc_fontkit := True\<rparr>) (sarabunFontBytes st1) = Inr f" and
    l2: "finalWatermarkLine2 e req = Inr l2" and
    each: "forEach (placeWatermark e f f (finalWatermarkLine1 req) (JStr l2)
                      (finalWatermarkOptions req)) (doc_pages d) = Inr pages'" and
    d'_eq: "d' = d\<lparr>doc_fontkit := True, doc_fonts := doc_fonts d @ [f], doc_pages := pages'\<rparr>"
    by blast
  from forEach_Inr [OF each] have
    len: "length pages' = length (doc_pages d)" and
    nth: "\<And>i. i < length (doc_pages d) \<Longrightarrow>
            placeWatermark e f f (finalWatermarkLine1 req) (JStr l2)
              (finalWatermarkOptions req) (doc_pages d ! i) = Inr (pages' ! i)"
    by blast+
  have pages: "\<forall>i<length (doc_pages d).
                 placeWatermark e f f (finalWatermarkLine1 req) (JStr l2)
                   (finalWatermarkOptions req) (doc_pages d ! i) = Inr (pages' ! i)
               \<and> page_width (pages' ! i) = page_width (doc_pages d ! i)
               \<and> page_height (pages' ! i) = page_height (doc_pages d ! i)
               \<and> (\<exists>o1 o2. page_drawn (pages' ! i)
                     = page_drawn (doc_pages d ! i)
                         @ [(finalWatermarkLine1 req, o1), (JStr l2, o2)])"
    using nth placeWatermark_two_draws by blast
  from bs d f l2 len pages saved out d'_eq
  show "\<exists>bs d f l2 pages' saved.
            bufferFrom e (pdfBase64 req) = Inr bs
          \<and> PDFDocument_load e bs = Inr d
          \<and> embedFont e (d\<lparr>doc_fontkit := True\<rparr>) (sarabunFontBytes st1) = Inr f
          \<and> finalWatermarkLine2 e req = Inr l2
          \<and> length pages' = length (doc_pages d)
          \<and> (\<forall>i<length (doc_pages d).
                 placeWatermark e f f (finalWatermarkLine1 req) (JStr l2)
                   (finalWatermarkOptions req) (doc_pages d ! i) = Inr (pages' ! i)
               \<and> page_width (pages' ! i) = page_width (doc_pages d ! i)
               \<and> page_height (pages' ! i) = page_height (doc_pages d ! i)
               \<and> (\<exists>o1 o2. page_drawn (pages' ! i)
                     = page_drawn (doc_pages d ! i)
                         @ [(finalWatermarkLine1 req, o1), (JStr l2, o2)]))
          \<and> save e (d\<lparr>doc_fontkit := True, doc_fonts := doc_fonts d @ [f],
                        doc_pages := pages'\<rparr>) = Inr saved
          \<and> out = toBase64 e saved"
    by blast
next
  fix st1 bs d f l2
  assume a: "fontGuard e st = (Inr (), st1) \<and> truthy (pdfBase64 req)
       \<and> bufferFrom e (pdfBase64 req) = Inr bs
       \<and> PDFDocument_load e bs = Inr d
       \<and> embedFont e (d\<lparr>doc_fontkit := True\<rparr>) (sarabunFontBytes st1) = Inr f
       \<and> finalWatermarkLine2 e req = Inr l2
       \<and> (\<forall>p\<in>set (doc_pages d).
              \<exists>q. placeWatermark e f f (finalWatermarkLine1 req) (JStr l2)
                     (finalWatermarkOptions req) p = Inr q)
       \<and> (\<forall>d'. \<exists>saved. save e d' = Inr saved)"
  then have guard: "fontGuard e st = (Inr (), st1)" and pdf: "truthy (pdfBase64 req)"
    and bs: "bufferFrom e (pdfBase64 req) = Inr bs"
    and d: "PDFDocument_load e bs = Inr d"
    and f: "embedFont e (d\<lparr>doc_fontkit := True\<rparr>) (sarabunFontBytes st1) = Inr f"
    and l2: "finalWatermarkLine2 e req = Inr l2"
    and each: "\<forall>p\<in>set (doc_pages d).
              \<exists>q. placeWatermark e f f (finalWatermarkLine1 req) (JStr l2)
                     (finalWatermarkOptions req) p = Inr q"
    and sv: "\<forall>d'. \<exists>saved. save e d' = Inr saved"
    by blast+
  from forEach_total [OF each] obtain pages' where
    "forEach (placeWatermark e f f (finalWatermarkLine1 req) (JStr l2)
       (finalWatermarkOptions req)) (doc_pages d) = Inr pages'"
    by blast
  then have doc: "watermarkedDoc e (sarabunFontBytes st1) req
      = Inr (d\<lparr>doc_fontkit := True, doc_fonts := doc_fonts d @ [f], doc_pages := pages'\<rparr>)"
    by (simp add: watermarkedDoc_pages [OF bs d f l2])
  from sv obtain saved where
    "save e (d\<lparr>doc_fontkit := True, doc_fonts := doc_fonts d @ [f], doc_pages := pages'\<rparr>)
       = Inr saved"
    by blast
  from tryBlock_saved [OF doc this]
  have "tryBlock e (sarabunFontBytes st1) req = Inr (toBase64 e saved)" .
  from addWatermark_success [OF guard pdf this]
  show "\<exists>out. addWatermark e st req = (\<lparr>status = 200, body = SuccessBody out\<rparr>, st1)"
    by blast
qed

text \<open>The sample document of two pages, on a warm and on a cold start.\<close>

theorem page_count_preserved_witness:
  "addWatermark sample_env loaded_state sample_request
     = (\<lparr>status = 200, body = SuccessBody ''JVBERg==''\<rparr>, loaded_state)
   \<and> (\<exists>bs d pages' saved.
         bufferFrom sample_env (pdfBase64 sample_request) = Inr bs
       \<and> PDFDocument_load sample_env bs = Inr d
       \<and> length (doc_pages d) = 2
       \<and> length pages' = 2
       \<and> save sample_env
            (d\<lparr>doc_fontkit := True, doc_fonts := doc_fonts d @ [PDFFont sample_font_bytes],
               doc_pages := pages'\<rparr>) = Inr saved
       \<and> ''JVBERg=='' = toBase64 sample_env saved)
   \<and> fontGuard sample_env initial_state = (Inr (), loaded_state)
   \<and> truthy (pdfBase64 sample_request)
   \<and> (\<exists>out. addWatermark sample_env initial_state sample_request
               = (\<lparr>status = 200, body = SuccessBody out\<rparr>, loaded_state))"
proof -
  from page_count_preserved [of sample_env loaded_state sample_request] addWatermark_sample
  obtain bs d f pages' saved where
    bs: "bufferFrom sample_env (pdfBase64 sample_request) = Inr bs" and
    d: "PDFDocument_load sample_env bs = Inr d" and
    f: "embedFont sample_env (d\<lparr>doc_fontkit := True\<rparr>) (sarabunFontBytes loaded_state) = Inr f"
    and len: "length pages' = length (doc_pages d)" and
    saved: "save sample_env (d\<lparr>doc_fontkit := True, doc_fonts := doc_fonts d @ [f],
                        doc_pages := pages'\<rparr>) = Inr saved" and
    out: "''JVBERg=='' = toBase64 sample_env saved"
    by blast
  from bs sample_decode(1) have "bs = sample_pdf_bytes" by simp
  with d sample_parse(1) have d_eq: "d = sample_doc" by simp
  with f sample_embed have f_eq: "f = PDFFont sample_font_bytes" by simp
  have two: "length (doc_pages d) = 2"
    by (simp add: d_eq sample_doc_def)
  from bs d two len saved out f_eq
  have warm: "\<exists>bs d pages' saved.
         bufferFrom sample_env (pdfBase64 sample_request) = Inr bs
       \<and> PDFDocument_load sample_env bs = Inr d
       \<and> length (doc_pages d) = 2
       \<and> length pages' = 2
       \<and> save sample_env
            (d\<lparr>doc_fontkit := True, doc_fonts := doc_fonts d @ [PDFFont sample_font_bytes],
               doc_pages := pages'\<rparr>) = Inr saved
       \<and> ''JVBERg=='' = toBase64 sample_env saved"
    by auto
  have guard: "fontGuard sample_env initial_state = (Inr (), loaded_state)"
    by (simp add: fontGuard_def loadSarabunFont_def initial_state_def loaded_state_def
          sample_env_def fontPath_def)
  have pdf: "truthy (pdfBase64 sample_request)"
    by (simp add: sample_request_def)
  have each: "\<forall>p\<in>set (doc_pages sample_doc).
      \<exists>q. placeWatermark sample_env (PDFFont sample_font_bytes) (PDFFont sample_font_bytes)
            (finalWatermarkLine1 sample_request) (JStr ''Jane Doe'')
            (finalWatermarkOptions sample_request) p = Inr q"
    by (simp add: sample_doc_def sample_line1 placeWatermark_sample placeWatermark_sample_a4)
  have sv: "\<forall>d'. \<exists>saved. save sample_env d' = Inr saved"
    by (simp add: sample_save)
  from page_count_preserved [of sample_env initial_state sample_request]
    guard pdf sample_decode(1) sample_parse(1) sample_embed sample_line2(1) each sv
  have cold: "\<exists>out. addWatermark sample_env initial_state sample_request
               = (\<lparr>status = 200, body = SuccessBody out\<rparr>, loaded_state)"
    by blast
  from addWatermark_sample warm guard pdf cold show ?thesis by blast
qed

text \<open>
  C8. Once the font guard has passed and \<^verbatim>\<open>pdfBase64\<close> is there, an exception of the
  decoding, of the parser, of the font embedding, of the callback on any page (whatever
  was drawn on the pages before it) or of the serialisation, and more generally any exception
  that leaves the \<^verbatim>\<open>try\<close> block, is answered with status 500, the error
  \<^verbatim>\<open>Failed to generate watermarked PDF\<close> and the message of the exception as details.
  The response is either that one, which holds no document, or status 200 with the base64
  text of the saved document, and the document saved is the loaded one with every page
  watermarked: as many pages, page \<open>i\<close> being the callback's result on page \<open>i\<close> of the
  input with line 1 and line 2 drawn after what the page held.
\<close>

theorem exceptions_reported_no_partial_result:
  assumes guard: "fontGuard e st = (Inr (), st1)" and pdf: "truthy (pdfBase64 req)"
  shows "(\<forall>m. bufferFrom e (pdfBase64 req) = Inl m \<longrightarrow>
            addWatermark e st req = (documentProcessingFailure m, st1))
       \<and> (\<forall>bs m. bufferFrom e (pdfBase64 req) = Inr bs \<and> PDFDocument_load e bs = Inl m \<longrightarrow>
            addWatermark e st req = (documentProcessingFailure m, st1))
       \<and> (\<forall>bs d m. bufferFrom e (pdfBase64 req) = Inr bs \<and> PDFDocument_load e bs = Inr d
              \<and> embedFont e (d\<lparr>doc_fontkit := True\<rparr>) (sarabunFontBytes st1) = Inl m \<longrightarrow>
            addWatermark e st req = (documentProcessingFailure m, st1))
       \<and> (\<forall>bs d f l2 i m. bufferFrom e (pdfBase64 req) = Inr bs \<and> PDFDocument_load e bs = Inr d
              \<and> embedFont e (d\<lparr>doc_fontkit := True\<rparr>) (sarabunFontBytes st1) = Inr f
              \<and> finalWatermarkLine2 e req = Inr l2
              \<and> i < length (doc_pages d)
              \<and> placeWatermark e f f (finalWatermarkLine1 req) (JStr l2)
                   (finalWatermarkOptions req) (doc_pages d ! i) = Inl m
              \<and> (\<forall>j<i. \<exists>q. placeWatermark e f f (finalWatermarkLine1 req) (JStr l2)
                               (finalWatermarkOptions req) (doc_pages d ! j) = Inr q) \<longrightarrow>
            addWatermark e st req = (documentProcessingFailure m, st1))
       \<and> (\<forall>d' m. watermarkedDoc e (sarabunFontBytes st1) req = Inr d' \<and> save e d' = Inl m \<longrightarrow>
            addWatermark e st req = (documentProcessingFailure m, st1))
       \<and> (\<forall>m. tryBlock e (sarabunFontBytes st1) req = Inl m \<longrightarrow>
            addWatermark e st req = (documentProcessingFailure m, st1))
       \<and> ((\<exists>m. addWatermark e st req = (documentProcessingFailure m, st1))
          \<or> (\<exists>bs d f l2 pages' saved.
                  bufferFrom e (pdfBase64 req) = Inr bs
                \<and> PDFDocument_load e bs = Inr d
                \<and> embedFont e (d\<lparr>doc_fontkit := True\<rparr>) (sarabunFontBytes st1) = Inr f
                \<and> finalWatermarkLine2 e req = Inr l2
                \<and> length pages' = length (doc_pages d)
                \<and> (\<forall>i<length (doc_pages d).
                       placeWatermark e f f (finalWatermarkLine1 req) (JStr l2)
                         (finalWatermarkOptions req) (doc_pages d ! i) = Inr (pages' ! i)
                     \<and> page_width (pages' ! i) = page_width (doc_pages d ! i)
                     \<and> page_height (pages' ! i) = page_height (doc_pages d ! i)
                     \<and> (\<exists>o1 o2. page_drawn (pages' ! i)
                           = page_drawn (doc_pages d ! i)
                               @ [(finalWatermarkLine1 req, o1), (JStr l2, o2)]))
                \<and> save e (d\<lparr>doc_fontkit := True, doc_fonts := doc_fonts d @ [f],
                              doc_pages := pages'\<rparr>) = Inr saved
                \<and> addWatermark e st req
                    = (\<lparr>status = 200, body = SuccessBody (toBase64 e saved)\<rparr>, st1)))"
proof -
  note fail = addWatermark_throws [OF guard pdf]
  have decode: "\<And>m. bufferFrom e (pdfBase64 req) = Inl m \<Longrightarrow>
            addWatermark e st req = (documentProcessingFailure m, st1)"
    by (intro fail tryBlock_doc_throws watermarkedDoc_decode_throws)
  have parse: "\<And>bs m. bufferFrom e (pdfBase64 req) = Inr bs \<Longrightarrow> PDFDocument_load e bs = Inl m \<Longrightarrow>
            addWatermark e st req = (documentProcessingFailure m, st1)"
    by (intro fail tryBlock_doc_throws) (rule watermarkedDoc_parse_throws)
  have embed: "\<And>bs d m. bufferFrom e (pdfBase64 req) = Inr bs \<Longrightarrow> PDFDocument_load e bs = Inr d
              \<Longrightarrow> embedFont e (d\<lparr>doc_fontkit := True\<rparr>) (sarabunFontBytes st1) = Inl m \<Longrightarrow>
            addWatermark e st req = (documentProcessingFailure m, st1)"
    by (intro fail tryBlock_doc_throws) (rule watermarkedDoc_embed_throws)
  have draw: "\<And>bs d f l2 i m. bufferFrom e (pdfBase64 req) = Inr bs \<Longrightarrow> PDFDocument_load e bs = Inr d
              \<Longrightarrow> embedFont e (d\<lparr>doc_fontkit := True\<rparr>) (sarabunFontBytes st1) = Inr f
              \<Longrightarrow> finalWatermarkLine2 e req = Inr l2
              \<Longrightarrow> i < length (doc_pages d)
              \<Longrightarrow> placeWatermark e f f (finalWatermarkLine1 req) (JStr l2)
                   (finalWatermarkOptions req) (doc_pages d ! i) = Inl m
              \<Longrightarrow> (\<forall>j<i. \<exists>q. placeWatermark e f f (finalWatermarkLine1 req) (JStr l2)
                               (finalWatermarkOptions req) (doc_pages d ! j) = Inr q) \<Longrightarrow>
            addWatermark e st req = (documentProcessingFailure m, st1)"
  proof -
    fix bs d f l2 i m
    assume a: "bufferFrom e (pdfBase64 req) = Inr bs" "PDFDocument_load e bs = Inr d"
      "embedFont e (d\<lparr>doc_fontkit := True\<rparr>) (sarabunFontBytes st1) = Inr f"
      "finalWatermarkLine2 e req = Inr l2"
    assume i: "i < length (doc_pages d)"
      "placeWatermark e f f (finalWatermarkLine1 req) (JStr l2)
                   (finalWatermarkOptions req) (doc_pages d ! i) = Inl m"
      "\<forall>j<i. \<exists>q. placeWatermark e f f (finalWatermarkLine1 req) (JStr l2)
                               (finalWatermarkOptions req) (doc_pages d ! j) = Inr q"
    have "forEach (placeWatermark e f f (finalWatermarkLine1 req) (JStr l2)
             (finalWatermarkOptions req)) (doc_pages d) = Inl m"
      using i by (rule forEach_first_Inl)
    then have "watermarkedDoc e (sarabunFontBytes st1) req = Inl m"
      by (simp add: watermarkedDoc_pages [OF a])
    then show "addWatermark e st req = (documentProcessingFailure m, st1)"
      by (intro fail tryBlock_doc_throws)
  qed
  have ser: "\<And>d' m. watermarkedDoc e (sarabunFontBytes st1) req = Inr d' \<Longrightarrow> save e d' = Inl m \<Longrightarrow>
            addWatermark e st req = (documentProcessingFailure m, st1)"
    by (intro fail) (rule tryBlock_save_throws)
  have any: "\<And>m. tryBlock e (sarabunFontBytes st1) req = Inl m \<Longrightarrow>
            addWatermark e st req = (documentProcessingFailure m, st1)"
    by (rule fail)
  have whole: "(\<exists>m. addWatermark e st req = (documentProcessingFailure m, st1))
          \<or> (\<exists>bs d f l2 pages' saved.
                  bufferFrom e (pdfBase64 req) = Inr bs
                \<and> PDFDocument_load e bs = Inr d
                \<and> embedFont e (d\<lparr>doc_fontkit := True\<rparr>) (sarabunFontBytes st1) = Inr f
                \<and> finalWatermarkLine2 e req = Inr l2
                \<and> length pages' = length (doc_pages d)
                \<and> (\<forall>i<length (doc_pages d).
                       placeWatermark e f f (finalWatermarkLine1 req) (JStr l2)
                         (finalWatermarkOptions req) (doc_pages d ! i) = Inr (pages' ! i)
                     \<and> page_width (pages' ! i) = page_width (doc_pages d ! i)
                     \<and> page_height (pages' ! i) = page_height (doc_pages d ! i)
                     \<and> (\<exists>o1 o2. page_drawn (pages' ! i)
                           = page_drawn (doc_pages d ! i)
                               @ [(finalWatermarkLine1 req, o1), (JStr l2, o2)]))
                \<and> save e (d\<lparr>doc_fontkit := True, doc_fonts := doc_fonts d @ [f],
                              doc_pages := pages'\<rparr>) = Inr saved
                \<and> addWatermark e st req
                    = (\<lparr>status = 200, body = SuccessBody (toBase64 e saved)\<rparr>, st1))"
  proof (cases "tryBlock e (sarabunFontBytes st1) req")
    case (Inl m)
    then show ?thesis using fail by blast
  next
    case (Inr out)
    from tryBlock_Inr_pages [OF Inr] obtain bs d f l2 pages' saved where
      full: "bufferFrom e (pdfBase64 req) = Inr bs
        \<and> PDFDocument_load e bs = Inr d
        \<and> embedFont e (d\<lparr>doc_fontkit := True\<rparr>) (sarabunFontBytes st1) = Inr f
        \<and> finalWatermarkLine2 e req = Inr l2
        \<and> length pages' = length (doc_pages d)
        \<and> (\<forall>i<length (doc_pages d).
               placeWatermark e f f (finalWatermarkLine1 req) (JStr l2)
                 (finalWatermarkOptions req) (doc_pages d ! i) = Inr (pages' ! i)
             \<and> page_width (pages' ! i) = page_width (doc_pages d ! i)
             \<and> page_height (pages' ! i) = page_height (doc_pages d ! i)
             \<and> (\<exists>o1 o2. page_drawn (pages' ! i)
                   = page_drawn (doc_pages d ! i)
                       @ [(finalWatermarkLine1 req, o1), (JStr l2, o2)]))
        \<and> save e (d\<lparr>doc_fontkit := True, doc_fonts := doc_fonts d @ [f],
                      doc_pages := pages'\<rparr>) = Inr saved"
      and out: "out = toBase64 e saved"
      by blast
    from addWatermark_success [OF guard pdf Inr] out
    have "addWatermark e st req
        = (\<lparr>status = 200, body = SuccessBody (toBase64 e saved)\<rparr>, st1)"
      by simp
    with full show ?thesis by blast
  qed
  from decode parse embed draw ser any whole show ?thesis by blast
qed

text \<open>Text that is not a PDF, an opacity that the library rejects on the first page, and
  the sample document.\<close>

theorem exceptions_reported_no_partial_result_witness:
  "fontGuard sample_env loaded_state = (Inr (), loaded_state)
   \<and> truthy (pdfBase64 (sample_request\<lparr>pdfBase64 := JStr ''bm90IGEgUERG''\<rparr>))
   \<and> bufferFrom sample_env (pdfBase64 (sample_request\<lparr>pdfBase64 := JStr ''bm90IGEgUERG''\<rparr>))
       = Inr []
   \<and> PDFDocument_load sample_env [] = Inl ''No PDF header found''
   \<and> addWatermark sample_env loaded_state (sample_request\<lparr>pdfBase64 := JStr ''bm90IGEgUERG''\<rparr>)
       = (\<lparr>status = 500,
           body = ErrorDetailsBody ''Failed to generate watermarked PDF''
                    ''No PDF header found''\<rparr>,
          loaded_state)
   \<and> truthy (pdfBase64 unchecked_request)
   \<and> placeWatermark sample_env (PDFFont sample_font_bytes) (PDFFont sample_font_bytes)
        (finalWatermarkLine1 unchecked_request) (JStr ''Jane Doe'')
        (finalWatermarkOptions unchecked_request) (doc_pages sample_doc ! 0)
       = Inl ''opacity must be at least 0 and at most 1''
   \<and> addWatermark sample_env loaded_state unchecked_request
       = (\<lparr>status = 500,
           body = ErrorDetailsBody ''Failed to generate watermarked PDF''
                    ''opacity must be at least 0 and at most 1''\<rparr>,
          loaded_state)
   \<and> truthy (pdfBase64 sample_request)
   \<and> addWatermark sample_env loaded_state sample_request
       = (\<lparr>status = 200, body = SuccessBody ''JVBERg==''\<rparr>, loaded_state)"
proof -
  have t1: "truthy (pdfBase64 (sample_request\<lparr>pdfBase64 := JStr ''bm90IGEgUERG''\<rparr>))"
    by simp
  have d1: "bufferFrom sample_env
      (pdfBase64 (sample_request\<lparr>pdfBase64 := JStr ''bm90IGEgUERG''\<rparr>)) = Inr []"
    by (simp add: sample_decode)
  have r1: "addWatermark sample_env loaded_state
        (sample_request\<lparr>pdfBase64 := JStr ''bm90IGEgUERG''\<rparr>)
      = (documentProcessingFailure ''No PDF header found'', loaded_state)"
    using exceptions_reported_no_partial_result [OF fontGuard_loaded_state t1]
      d1 sample_parse(2)
    by blast
  have t2: "truthy (pdfBase64 unchecked_request)"
    by (simp add: unchecked_request_def sample_request_def)
  have p2: "placeWatermark sample_env (PDFFont sample_font_bytes) (PDFFont sample_font_bytes)
        (finalWatermarkLine1 unchecked_request) (JStr ''Jane Doe'')
        (finalWatermarkOptions unchecked_request) (doc_pages sample_doc ! 0)
       = Inl ''opacity must be at least 0 and at most 1''"
    by (simp add: sample_line1 sample_doc_def placeWatermark_rejected)
  have r2: "addWatermark sample_env loaded_state unchecked_request
      = (documentProcessingFailure ''opacity must be at least 0 and at most 1'', loaded_state)"
  proof -
    have len: "0 < length (doc_pages sample_doc)"
      by (simp add: sample_doc_def)
    have before: "\<forall>j<0. \<exists>q. placeWatermark sample_env (PDFFont sample_font_bytes)
        (PDFFont sample_font_bytes) (finalWatermarkLine1 unchecked_request) (JStr ''Jane Doe'')
        (finalWatermarkOptions unchecked_request) (doc_pages sample_doc ! j) = Inr q"
      by simp
    from exceptions_reported_no_partial_result [OF fontGuard_loaded_state t2]
    have "\<forall>bs d f l2 i m.
        bufferFrom sample_env (pdfBase64 unchecked_request) = Inr bs
      \<and> PDFDocument_load sample_env bs = Inr d
      \<and> embedFont sample_env (d\<lparr>doc_fontkit := True\<rparr>) (sarabunFontBytes loaded_state) = Inr f
      \<and> finalWatermarkLine2 sample_env unchecked_request = Inr l2
      \<and> i < length (doc_pages d)
      \<and> placeWatermark sample_env f f (finalWatermarkLine1 unchecked_request) (JStr l2)
           (finalWatermarkOptions unchecked_request) (doc_pages d ! i) = Inl m
      \<and> (\<forall>j<i. \<exists>q. placeWatermark sample_env f f (finalWatermarkLine1 unchecked_request)
                       (JStr l2) (finalWatermarkOptions unchecked_request) (doc_pages d ! j)
                     = Inr q) \<longrightarrow>
        addWatermark sample_env loaded_state unchecked_request
          = (documentProcessingFailure m, loaded_state)"
      by blast
    from this [rule_format, of sample_pdf_bytes sample_doc "PDFFont sample_font_bytes"
        "''Jane Doe''" 0 "''opacity must be at least 0 and at most 1''"]
      sample_decode(2) sample_parse(1) sample_embed sample_line2(2) len p2 before
    show ?thesis by blast
  qed
  have t3: "truthy (pdfBase64 sample_request)"
    by (simp add: sample_request_def)
  from fontGuard_loaded_state t1 d1 sample_parse(2) r1 t2 p2 r2 t3 addWatermark_sample
  show ?thesis by (simp add: documentProcessingFailure_def)
qed


end
